theory Spec2Isabelle
  imports Complex_Main
begin

section \<open>Radionuclide speciation (opendrift/models/radionuclides.py)\<close>

text \<open>
  A shallow embedding of \<^verbatim>\<open>RadionuclideDrift\<close>. numpy's float arrays are lists of
  reals (rounding is not modelled), the integer array \<^verbatim>\<open>elements.specie\<close> is a list of
  naturals, and every Python exception is a value of type \<open>error\<close>.
\<close>

subsection \<open>Exceptions\<close>

datatype error = TypeError | ValueError | AttributeError | IndexError | ZeroDivisionError

text \<open>
  A method that writes to the object or to the arrays of \<^verbatim>\<open>self.elements\<close> and may raise
  leaves its writes behind: its outcome is the state as it stands when the method ends,
  and the exception that ended it, if any. \<open>seq\<close> runs the next statement unless one was
  raised.
\<close>

definition seq :: "'s \<times> error option \<Rightarrow> ('s \<Rightarrow> 's \<times> error option) \<Rightarrow> 's \<times> error option" where
  "seq r f = (case r of (s, None) \<Rightarrow> f s | (s, Some e) \<Rightarrow> (s, Some e))"

subsection \<open>Configuration (configspec_radionuclidedrift)\<close>

record config =
  transfer_setup :: string
  slowly_fraction :: bool
  irreversible_fraction :: bool
  dissolved_diameter :: real
  particle_diameter :: real
  particle_diameter_uncertainty :: real
  species_LMM :: bool
  species_Colloid :: bool
  species_Particle_reversible :: bool
  species_Particle_slowly_reversible :: bool
  species_Particle_irreversible :: bool
  species_Sediment_reversible :: bool
  species_Sediment_slowly_reversible :: bool
  species_Sediment_irreversible :: bool
  Kd :: real
  Dc :: real
  slow_coeff :: real
  sedmixdepth :: real
  sediment_density :: real
  effective_fraction :: real
  corr_factor :: real
  porosity :: real
  layer_thick :: real
  desorption_depth :: real
  desorption_depth_uncert :: real
  verticaladvection :: bool

text \<open>The ranges \<^verbatim>\<open>float(min=..., max=...)\<close> of the configuration specification.\<close>

definition config_in_range :: "config \<Rightarrow> bool" where
  "config_in_range c \<longleftrightarrow>
     0 \<le> dissolved_diameter c \<and> dissolved_diameter c \<le> 100 / 10 ^ 6 \<and>
     0 \<le> particle_diameter c \<and> particle_diameter c \<le> 100 / 10 ^ 6 \<and>
     0 \<le> particle_diameter_uncertainty c \<and> particle_diameter_uncertainty c \<le> 100 / 10 ^ 6 \<and>
     0 \<le> Kd c \<and> Kd c \<le> 10 ^ 9 \<and>
     0 \<le> Dc c \<and> Dc c \<le> 10 ^ 6 \<and>
     0 \<le> slow_coeff c \<and> slow_coeff c \<le> 10 ^ 6 \<and>
     0 \<le> sedmixdepth c \<and> sedmixdepth c \<le> 100 \<and>
     0 \<le> sediment_density c \<and> sediment_density c \<le> 10000 \<and>
     0 \<le> effective_fraction c \<and> effective_fraction c \<le> 1 \<and>
     0 \<le> corr_factor c \<and> corr_factor c \<le> 10 \<and>
     0 \<le> porosity c \<and> porosity c \<le> 1 \<and>
     0 \<le> layer_thick c \<and> layer_thick c \<le> 100 \<and>
     0 \<le> desorption_depth c \<and> desorption_depth c \<le> 100 \<and>
     0 \<le> desorption_depth_uncert c \<and> desorption_depth_uncert c \<le> 100"

subsection \<open>The simulation object\<close>

text \<open>
  The attributes of \<^verbatim>\<open>self\<close> that the speciation code assigns and reads. An index
  attribute (\<^verbatim>\<open>self.num_lmm\<close>, ...) is \<open>None\<close> until an assignment to it has run.
  \<^verbatim>\<open>self.num_pirrev\<close> and \<^verbatim>\<open>self.num_sirrev\<close> are read by the source but assigned nowhere
  in it.
\<close>

record sim =
  config :: config
  name_species :: "string list"
  nspecies :: nat
  transfer_rates :: "real list list"
  num_lmm :: "nat option"
  num_col :: "nat option"
  num_prev :: "nat option"
  num_srev :: "nat option"
  num_psrev :: "nat option"
  num_ssrev :: "nat option"
  num_pirrev :: "nat option"
  num_sirrev :: "nat option"

subsection \<open>Compartment registry\<close>

text \<open>\<^verbatim>\<open>list.index\<close>: the position of the first occurrence.\<close>

fun index_of :: "'a list \<Rightarrow> 'a \<Rightarrow> nat" where
  "index_of [] a = 0"
| "index_of (x # xs) a = (if x = a then 0 else Suc (index_of xs a))"

text \<open>\<^verbatim>\<open>specie_name2num\<close>: \<^verbatim>\<open>self.name_species.index(name)\<close> raises ValueError for a
  name that is not in the list.\<close>

definition specie_name2num :: "sim \<Rightarrow> string \<Rightarrow> error + nat" where
  "specie_name2num s name =
     (if name \<in> set (name_species s) then Inr (index_of (name_species s) name)
      else Inl ValueError)"

text \<open>The list built by the eight \<^verbatim>\<open>append\<close> calls of \<^verbatim>\<open>prepare_run\<close>.\<close>

definition enabled_species :: "config \<Rightarrow> string list" where
  "enabled_species c =
     (if species_LMM c then [''LMM''] else []) @
     (if species_Colloid c then [''Colloid''] else []) @
     (if species_Particle_reversible c then [''Particle reversible''] else []) @
     (if species_Particle_slowly_reversible c then [''Particle slowly reversible''] else []) @
     (if species_Particle_irreversible c then [''Particle irreversible''] else []) @
     (if species_Sediment_reversible c then [''Sediment reversible''] else []) @
     (if species_Sediment_slowly_reversible c then [''Sediment slowly reversible''] else []) @
     (if species_Sediment_irreversible c then [''Sediment irreversible''] else [])"

subsection \<open>Transfer rate matrix builder\<close>

text \<open>\<^verbatim>\<open>np.zeros([n, n])\<close>, \<^verbatim>\<open>m[i, j] = v\<close> and \<^verbatim>\<open>np.fill_diagonal(m, 0.)\<close>. Every index
  written by the builder is a position of \<^verbatim>\<open>name_species\<close>, hence below \<^verbatim>\<open>nspecies\<close>.\<close>

definition zeros :: "nat \<Rightarrow> real list list" where
  "zeros n = replicate n (replicate n 0)"

definition set_rate :: "real list list \<Rightarrow> nat \<Rightarrow> nat \<Rightarrow> real \<Rightarrow> real list list" where
  "set_rate m i j v = m[i := (m ! i)[j := v]]"

definition fill_diagonal :: "real list list \<Rightarrow> real list list" where
  "fill_diagonal m = map (\<lambda>i. (m ! i)[i := 0]) [0..<length m]"

text \<open>An assignment \<^verbatim>\<open>self.num_... = self.specie_name2num(name)\<close> and what follows it: the
  ValueError of the lookup ends the method with the object as it stands.\<close>

definition with_index ::
  "sim \<Rightarrow> string \<Rightarrow> (nat \<Rightarrow> sim \<times> error option) \<Rightarrow> sim \<times> error option" where
  "with_index s name k =
     (case specie_name2num s name of Inl e \<Rightarrow> (s, Some e) | Inr i \<Rightarrow> k i)"

text \<open>The branch \<^verbatim>\<open>transfer_setup == 'Bokna_137Cs'\<close>. The configuration values are Python
  floats, so the division by \<^verbatim>\<open>layer_thick\<close> raises ZeroDivisionError at zero, after the
  first two rates have been written.\<close>

definition bokna_137Cs :: "sim \<Rightarrow> sim \<times> error option" where
  "bokna_137Cs s =
     with_index s ''LMM'' (\<lambda>lmm. let s1 = s\<lparr>num_lmm := Some lmm\<rparr> in
     with_index s1 ''Particle reversible'' (\<lambda>prev. let s2 = s1\<lparr>num_prev := Some prev\<rparr> in
     with_index s2 ''Sediment reversible'' (\<lambda>srev. let s3 = s2\<lparr>num_srev := Some srev\<rparr> in
     with_index s3 ''Particle slowly reversible'' (\<lambda>psrev.
       let s4 = s3\<lparr>num_psrev := Some psrev\<rparr> in
     with_index s4 ''Sediment slowly reversible'' (\<lambda>ssrev.
       let s5 = s4\<lparr>num_ssrev := Some ssrev\<rparr>;
           c = config s5;
           susp_mat = 1 / 10 ^ 3;
           default_density = sediment_density c;
           f = effective_fraction c;
           phi = corr_factor c;
           poro = porosity c;
           m1 = set_rate (transfer_rates s5) lmm prev (Dc c * Kd c * susp_mat);
           m2 = set_rate m1 prev lmm (Dc c)
       in if layer_thick c = 0 then (s5\<lparr>transfer_rates := m2\<rparr>, Some ZeroDivisionError)
          else
            let m3 = set_rate m2 lmm srev
                       (Dc c * Kd c * sedmixdepth c * default_density * (1 - poro) * f * phi
                          / layer_thick c);
                m4 = set_rate m3 srev lmm (Dc c * phi);
                m5 = set_rate m4 srev ssrev (slow_coeff c);
                m6 = set_rate m5 prev psrev (slow_coeff c);
                m7 = set_rate m6 ssrev srev (slow_coeff c * (1 / 10));
                m8 = set_rate m7 psrev prev (slow_coeff c * (1 / 10))
            in (s5\<lparr>transfer_rates := m8\<rparr>, None))))))"

text \<open>The branch \<^verbatim>\<open>transfer_setup == 'dummy'\<close>. Its second test of the slowly fraction
  reads the two attributes that the first one assigned.\<close>

definition dummy :: "sim \<Rightarrow> sim \<times> error option" where
  "dummy s =
     with_index s ''LMM'' (\<lambda>lmm. let s1 = s\<lparr>num_lmm := Some lmm\<rparr> in
     seq (if species_Colloid (config s1)
          then with_index s1 ''Colloid'' (\<lambda>col. (s1\<lparr>num_col := Some col\<rparr>, None))
          else (s1, None)) (\<lambda>s2.
     with_index s2 ''Particle reversible'' (\<lambda>prev. let s3 = s2\<lparr>num_prev := Some prev\<rparr> in
     with_index s3 ''Sediment reversible'' (\<lambda>srev. let s4 = s3\<lparr>num_srev := Some srev\<rparr> in
     seq (if slowly_fraction (config s4)
          then with_index s4 ''Particle slowly reversible'' (\<lambda>psrev.
                 let s5 = s4\<lparr>num_psrev := Some psrev\<rparr> in
               with_index s5 ''Sediment slowly reversible'' (\<lambda>ssrev.
                 (s5\<lparr>num_ssrev := Some ssrev\<rparr>, None)))
          else (s4, None)) (\<lambda>s6.
       let m1 = set_rate (transfer_rates s6) lmm prev (1 / 10 ^ 5);
           m2 = set_rate m1 srev lmm (5 / 10 ^ 6)
       in if slowly_fraction (config s6)
          then let psrev = the (num_psrev s6);
                   ssrev = the (num_ssrev s6);
                   m3 = set_rate m2 prev psrev (2 / 10 ^ 6);
                   m4 = set_rate m3 srev ssrev (2 / 10 ^ 6);
                   m5 = set_rate m4 psrev prev (2 / 10 ^ 7);
                   m6 = set_rate m5 ssrev srev (2 / 10 ^ 7)
               in (s6\<lparr>transfer_rates := m6\<rparr>, None)
          else (s6\<lparr>transfer_rates := m2\<rparr>, None))))))"

text \<open>
  \<^verbatim>\<open>init_transfer_rates\<close>. The zero matrix is bound to \<^verbatim>\<open>self.transfer_rates\<close> before the
  branches. The last branch evaluates \<^verbatim>\<open>logging.ERROR('No transfer setup available')\<close>:
  \<^verbatim>\<open>logging.ERROR\<close> is the integer level 40 of Python's logging module (the logging
  function is \<^verbatim>\<open>logging.error\<close>), and calling an integer raises TypeError.
\<close>

definition init_transfer_rates :: "sim \<Rightarrow> sim \<times> error option" where
  "init_transfer_rates s0 =
     (let s = s0\<lparr>transfer_rates := zeros (nspecies s0)\<rparr>
      in seq (if transfer_setup (config s) = ''Bokna_137Cs'' then bokna_137Cs s
              else if transfer_setup (config s) = ''dummy'' then dummy s
              else (s, Some TypeError))
             (\<lambda>s'. (s'\<lparr>transfer_rates := fill_diagonal (transfer_rates s')\<rparr>, None)))"

text \<open>\<^verbatim>\<open>prepare_run\<close>, starting from an object on which no index attribute is assigned; it
  ends as \<^verbatim>\<open>init_transfer_rates\<close> does.\<close>

definition prepare_run :: "config \<Rightarrow> sim \<times> error option" where
  "prepare_run c0 =
     (let names = enabled_species c0;
          c1 = (if species_Sediment_slowly_reversible c0 \<and> species_Particle_slowly_reversible c0
                then c0\<lparr>slowly_fraction := True\<rparr> else c0);
          c2 = (if species_Sediment_irreversible c1 \<and> species_Particle_irreversible c1
                then c1\<lparr>irreversible_fraction := True\<rparr> else c1)
      in init_transfer_rates
           \<lparr>config = c2, name_species = names, nspecies = length names, transfer_rates = [],
            num_lmm = None, num_col = None, num_prev = None, num_srev = None,
            num_psrev = None, num_ssrev = None, num_pirrev = None, num_sirrev = None\<rparr>)"

subsection \<open>Particle ensemble, environment and random draws\<close>

text \<open>
  \<^verbatim>\<open>self.elements\<close> holds one array per property, all of the same length (one entry per
  active element); \<^verbatim>\<open>transfer_rates1D\<close> is the attribute that \<^verbatim>\<open>update_transfer_rates\<close>
  adds. \<^verbatim>\<open>terminal_velocity\<close>, \<^verbatim>\<open>density\<close> and \<^verbatim>\<open>neutral_buoyancy_salinity\<close> are read and
  written by \<^verbatim>\<open>update_terminal_velocity\<close> only and are left out.
\<close>

record elements =
  lon :: "real list"
  lat :: "real list"
  z :: "real list"
  diameter :: "real list"
  specie :: "nat list"
  transfer_rates1D :: "real list list"

record environment =
  sea_floor_depth_below_sea_level :: "real list"
  conc3 :: "real list"

text \<open>
  The arrays returned by the random generator during one call of \<^verbatim>\<open>update_speciation\<close>,
  each given by its entries: \<open>ran1 g i\<close> is entry \<open>i\<close> of
  \<^verbatim>\<open>np.random.random(self.num_elements_active())\<close>, \<open>ran4 g ii\<close> entry \<open>ii\<close> of
  \<^verbatim>\<open>np.random.random(sum(phaseshift))\<close>, and the \<open>normal\<close> fields are the arrays returned
  by the four calls of \<^verbatim>\<open>np.random.normal(0, std, m)\<close>.
\<close>

record rng =
  ran1 :: "nat \<Rightarrow> real"
  ran4 :: "nat \<Rightarrow> real"
  normal_prev :: "nat \<Rightarrow> real"
  normal_psrev :: "nat \<Rightarrow> real"
  normal_pirrev :: "nat \<Rightarrow> real"
  normal_desorb :: "nat \<Rightarrow> real"

text \<open>The outcome of a method on the ensemble. Reading an index attribute that was never
  assigned raises AttributeError.\<close>

type_synonym outcome = "elements \<times> error option"

definition with_attr :: "nat option \<Rightarrow> (nat \<Rightarrow> outcome) \<Rightarrow> elements \<Rightarrow> outcome" where
  "with_attr a f el = (case a of None \<Rightarrow> (el, Some AttributeError) | Some i \<Rightarrow> f i)"

subsection \<open>numpy array operations\<close>

text \<open>\<^verbatim>\<open>a[mask] = b[mask]\<close> for a boolean mask and arrays of one length.\<close>

definition assign_where :: "bool list \<Rightarrow> 'a list \<Rightarrow> 'a list \<Rightarrow> 'a list" where
  "assign_where msk a b = map (\<lambda>i. if msk ! i then b ! i else a ! i) [0..<length a]"

text \<open>\<^verbatim>\<open>a[mask]\<close>: the entries at the True positions, in order.\<close>

definition compress :: "bool list \<Rightarrow> 'a list \<Rightarrow> 'a list" where
  "compress msk a = map snd (filter fst (zip msk a))"

text \<open>\<^verbatim>\<open>a[mask] = vals\<close>: the True positions receive the entries of \<open>vals\<close> in order
  (\<open>vals\<close> has one entry per True position wherever the source does this).\<close>

fun put_where :: "bool list \<Rightarrow> 'a list \<Rightarrow> 'a list \<Rightarrow> 'a list" where
  "put_where (m # ms) (x # xs) vs =
     (if m then (case vs of [] \<Rightarrow> x # xs | v # vs' \<Rightarrow> v # put_where ms xs vs')
      else x # put_where ms xs vs)"
| "put_where ms xs vs = xs"

text \<open>\<^verbatim>\<open>a[mask] += np.random.normal(0, std, sum(mask))\<close>, the draws given by their entries.\<close>

definition add_noise :: "bool list \<Rightarrow> real list \<Rightarrow> (nat \<Rightarrow> real) \<Rightarrow> real list" where
  "add_noise msk a noise =
     put_where msk a
       (map (\<lambda>k. compress msk a ! k + noise k) [0..<length (filter id msk)])"

text \<open>\<^verbatim>\<open>np.cumsum\<close>.\<close>

fun cumsum_from :: "real \<Rightarrow> real list \<Rightarrow> real list" where
  "cumsum_from acc [] = []"
| "cumsum_from acc (x # xs) = (acc + x) # cumsum_from (acc + x) xs"

definition cumsum :: "real list \<Rightarrow> real list" where
  "cumsum xs = cumsum_from 0 xs"

text \<open>\<^verbatim>\<open>np.searchsorted(a, v)\<close> with the default \<^verbatim>\<open>side='left'\<close> on an ascending array:
  the index \<open>i\<close> with \<open>a[i-1] < v \<le> a[i]\<close>, which is the number of entries below \<open>v\<close>.\<close>

definition searchsorted :: "real list \<Rightarrow> real \<Rightarrow> nat" where
  "searchsorted a v = length (takeWhile (\<lambda>x. x < v) a)"

subsection \<open>Rate projector\<close>

text \<open>The three array operations of \<^verbatim>\<open>update_transfer_rates\<close>, on the values of the arrays:
  \<^verbatim>\<open>m[idx,:]\<close> for an integer array \<open>idx\<close>, \<^verbatim>\<open>rows[(sp == lmm) & (dist > thick), srev] = 0.\<close>
  and \<^verbatim>\<open>rows[kktmp, prev] = rows[kktmp, prev] * conc[kktmp] / 1.e-3\<close> with
  \<^verbatim>\<open>kktmp = sp == lmm\<close>.\<close>

definition take_rows :: "real list list \<Rightarrow> nat list \<Rightarrow> real list list" where
  "take_rows m idx = map (\<lambda>sp. m ! sp) idx"

definition zero_srev ::
  "nat \<Rightarrow> nat \<Rightarrow> real \<Rightarrow> nat list \<Rightarrow> real list \<Rightarrow> real list list \<Rightarrow> real list list" where
  "zero_srev lmm srev interaction_thick sp dist_to_seabed rows =
     map (\<lambda>i. if sp ! i = lmm \<and> interaction_thick < dist_to_seabed ! i
               then (rows ! i)[srev := 0] else rows ! i) [0..<length sp]"

definition scale_prev ::
  "nat \<Rightarrow> nat \<Rightarrow> nat list \<Rightarrow> real list \<Rightarrow> real list list \<Rightarrow> real list list" where
  "scale_prev lmm prev sp conc rows =
     map (\<lambda>i. if sp ! i = lmm
               then (rows ! i)[prev := rows ! i ! prev * conc ! i / (1 / 10 ^ 3)]
               else rows ! i) [0..<length sp]"

text \<open>
  \<^verbatim>\<open>update_transfer_rates\<close>. Indexing the matrix with the integer array
  \<^verbatim>\<open>self.elements.specie\<close> builds a new array (one row per element), so the writes that
  follow go to \<^verbatim>\<open>transfer_rates1D\<close>; a specie outside the matrix raises IndexError. The
  columns \<^verbatim>\<open>self.num_srev\<close> and \<^verbatim>\<open>self.num_prev\<close> are positions of \<^verbatim>\<open>name_species\<close>.
\<close>

definition update_transfer_rates :: "sim \<Rightarrow> environment \<Rightarrow> elements \<Rightarrow> outcome" where
  "update_transfer_rates s env el =
     (if \<exists>sp \<in> set (specie el). length (transfer_rates s) \<le> sp then (el, Some IndexError)
      else
        let el1 = el\<lparr>transfer_rates1D := take_rows (transfer_rates s) (specie el)\<rparr>;
            Zmin = map (\<lambda>d. - 1 * d) (sea_floor_depth_below_sea_level env);
            interaction_thick = layer_thick (config s);
            dist_to_seabed = map (\<lambda>i. z el1 ! i - Zmin ! i) [0..<length (z el1)]
        in with_attr (num_lmm s) (\<lambda>lmm.
           with_attr (num_srev s) (\<lambda>srev.
             let el2 = el1\<lparr>transfer_rates1D :=
                             zero_srev lmm srev interaction_thick (specie el1) dist_to_seabed
                               (transfer_rates1D el1)\<rparr>
             in with_attr (num_prev s) (\<lambda>prev.
                  (el2\<lparr>transfer_rates1D :=
                          scale_prev lmm prev (specie el2) (conc3 env)
                            (transfer_rates1D el2)\<rparr>, None)) el2) el1) el1)"

subsection \<open>Transition effect handlers\<close>

text \<open>\<^verbatim>\<open>sorption_to_sediments\<close>.\<close>

definition sorption_to_sediments ::
  "sim \<Rightarrow> environment \<Rightarrow> nat list \<Rightarrow> nat list \<Rightarrow> elements \<Rightarrow> outcome" where
  "sorption_to_sediments s env sp_in sp_out el =
     with_attr (num_srev s) (\<lambda>srev.
     with_attr (num_lmm s) (\<lambda>lmm.
       let msk = map (\<lambda>i. sp_out ! i = srev \<and> sp_in ! i = lmm) [0..<length sp_out]
       in (el\<lparr>z := assign_where msk (z el)
                      (map (\<lambda>d. - 1 * d) (sea_floor_depth_below_sea_level env))\<rparr>, None)) el) el"

text \<open>\<^verbatim>\<open>desorption_from_sediments\<close>.\<close>

definition desorption_from_sediments ::
  "sim \<Rightarrow> environment \<Rightarrow> rng \<Rightarrow> nat list \<Rightarrow> nat list \<Rightarrow> elements \<Rightarrow> outcome" where
  "desorption_from_sediments s env g sp_in sp_out el =
     (let desorption_depth = desorption_depth (config s);
          std = desorption_depth_uncert (config s)
      in with_attr (num_lmm s) (\<lambda>lmm.
         with_attr (num_srev s) (\<lambda>srev.
           let msk = map (\<lambda>i. sp_out ! i = lmm \<and> sp_in ! i = srev) [0..<length sp_out];
               el1 = el\<lparr>z := assign_where msk (z el)
                               (map (\<lambda>d. d + desorption_depth)
                                  (sea_floor_depth_below_sea_level env))\<rparr>
           in if 0 < std then (el1\<lparr>z := add_noise msk (z el1) (normal_desorb g)\<rparr>, None)
              else (el1, None)) el) el)"

text \<open>\<^verbatim>\<open>update_radionuclide_diameter\<close>. \<open>entering sp_in sp_out k\<close> is the mask
  \<^verbatim>\<open>(sp_out==k) & (sp_in!=k)\<close>.\<close>

definition entering :: "nat list \<Rightarrow> nat list \<Rightarrow> nat \<Rightarrow> bool list" where
  "entering sp_in sp_out k = map (\<lambda>i. sp_out ! i = k \<and> sp_in ! i \<noteq> k) [0..<length sp_out]"

definition set_diameter :: "bool list \<Rightarrow> real \<Rightarrow> elements \<Rightarrow> elements" where
  "set_diameter msk d el =
     el\<lparr>diameter := assign_where msk (diameter el) (replicate (length (diameter el)) d)\<rparr>"

definition set_particle_diameter ::
  "bool list \<Rightarrow> real \<Rightarrow> real \<Rightarrow> (nat \<Rightarrow> real) \<Rightarrow> elements \<Rightarrow> elements" where
  "set_particle_diameter msk dia_part std noise el =
     (let el1 = set_diameter msk dia_part el
      in if 0 < std then el1\<lparr>diameter := add_noise msk (diameter el1) noise\<rparr> else el1)"

definition update_radionuclide_diameter ::
  "sim \<Rightarrow> rng \<Rightarrow> nat list \<Rightarrow> nat list \<Rightarrow> elements \<Rightarrow> outcome" where
  "update_radionuclide_diameter s g sp_in sp_out el =
     (let dia_part = particle_diameter (config s);
          dia_diss = dissolved_diameter (config s);
          std = particle_diameter_uncertainty (config s)
      in seq (with_attr (num_prev s) (\<lambda>prev.
                (set_particle_diameter (entering sp_in sp_out prev) dia_part std
                   (normal_prev g) el, None)) el) (\<lambda>el.
         seq (if slowly_fraction (config s)
              then with_attr (num_psrev s) (\<lambda>psrev.
                     (set_particle_diameter (entering sp_in sp_out psrev) dia_part std
                        (normal_psrev g) el, None)) el
              else (el, None)) (\<lambda>el.
         seq (if irreversible_fraction (config s)
              then with_attr (num_pirrev s) (\<lambda>pirrev.
                     (set_particle_diameter (entering sp_in sp_out pirrev) dia_part std
                        (normal_pirrev g) el, None)) el
              else (el, None)) (\<lambda>el.
         seq (with_attr (num_lmm s) (\<lambda>lmm.
                (set_diameter (entering sp_in sp_out lmm) dia_diss el, None)) el) (\<lambda>el.
         if species_Colloid (config s)
         then with_attr (num_col s) (\<lambda>col.
                (set_diameter (entering sp_in sp_out col) dia_diss el, None)) el
         else (el, None))))))"

subsection \<open>Stochastic speciation engine\<close>

text \<open>The array \<^verbatim>\<open>p = 1. - np.exp(-self.elements.transfer_rates1D*deltat)\<close>, its row sums
  \<^verbatim>\<open>psum = np.sum(p,axis=1)\<close> and the mask set by \<^verbatim>\<open>phaseshift[ ran1 < psum ] = True\<close>.\<close>

definition prob :: "real list list \<Rightarrow> nat \<Rightarrow> real list list" where
  "prob rates deltat = map (map (\<lambda>r. 1 - exp (- r * real deltat))) rates"

definition phaseshift_mask :: "rng \<Rightarrow> real list \<Rightarrow> nat \<Rightarrow> bool list" where
  "phaseshift_mask g psum n = map (\<lambda>i. ran1 g i < psum ! i) [0..<n]"

text \<open>The body of the loop over the transformed trajectories: the out specie of the
  \<open>ii\<close>-th of them.\<close>

definition out_specie :: "real list \<Rightarrow> real \<Rightarrow> real \<Rightarrow> nat" where
  "out_specie p_row psum_ii v = searchsorted (cumsum (map (\<lambda>x. x / psum_ii) p_row)) v"

text \<open>\<^verbatim>\<open>update_speciation\<close>; \<open>deltat\<close> is \<^verbatim>\<open>self.time_step.seconds\<close>, an integer that is
  never negative.\<close>

definition update_speciation ::
  "sim \<Rightarrow> environment \<Rightarrow> rng \<Rightarrow> nat \<Rightarrow> elements \<Rightarrow> outcome" where
  "update_speciation s env g deltat el =
     (let specie_in = specie el;
          n = length (specie el);
          p = prob (transfer_rates1D el) deltat;
          psum = map sum_list p;
          phaseshift = phaseshift_mask g psum n;
          k = length (filter id phaseshift)
      in if k = 0 then (el, None)
         else
           let ttmp = map (\<lambda>ii. out_specie (compress phaseshift p ! ii)
                                   (compress phaseshift psum ! ii) (ran4 g ii)) [0..<k];
               specie_out = put_where phaseshift specie_in ttmp;
               el1 = el\<lparr>specie := specie_out\<rparr>
           in seq (update_radionuclide_diameter s g specie_in specie_out el1) (\<lambda>el.
              seq (sorption_to_sediments s env specie_in specie_out el)
                  (desorption_from_sediments s env g specie_in specie_out)))"

subsection \<open>Bottom deposition\<close>

text \<open>\<^verbatim>\<open>self.elements.specie[bottom[kktmp]] = num\<close> for the elements of \<open>bottom\<close> whose
  specie is \<open>src\<close>.\<close>

definition deposit :: "nat list \<Rightarrow> nat \<Rightarrow> nat \<Rightarrow> elements \<Rightarrow> elements" where
  "deposit bottom src num el =
     (let kktmp = filter (\<lambda>k. specie el ! (bottom ! k) = src) [0..<length bottom]
      in el\<lparr>specie := foldl (\<lambda>sp k. sp[bottom ! k := num]) (specie el) kktmp\<rparr>)"

text \<open>\<^verbatim>\<open>bottom_interaction\<close>.\<close>

definition bottom_interaction :: "sim \<Rightarrow> real \<Rightarrow> elements \<Rightarrow> outcome" where
  "bottom_interaction s Zmin el =
     (let bottom = filter (\<lambda>i. z el ! i \<le> Zmin) [0..<length (z el)]
      in seq (with_attr (num_prev s) (\<lambda>prev.
              with_attr (num_srev s) (\<lambda>srev. (deposit bottom prev srev el, None)) el) el) (\<lambda>el.
         seq (if slowly_fraction (config s)
              then with_attr (num_psrev s) (\<lambda>psrev.
                   with_attr (num_ssrev s) (\<lambda>ssrev. (deposit bottom psrev ssrev el, None)) el) el
              else (el, None)) (\<lambda>el.
         if irreversible_fraction (config s)
         then with_attr (num_pirrev s) (\<lambda>pirrev.
              with_attr (num_sirrev s) (\<lambda>sirrev. (deposit bottom pirrev sirrev el, None)) el) el
         else (el, None))))"

subsection \<open>One step\<close>

text \<open>
  The methods that \<^verbatim>\<open>update\<close> calls on the host model are parameters: each maps the
  ensemble to the ensemble it leaves. \<^verbatim>\<open>update\<close> keeps \<^verbatim>\<open>lon, lat = self.elements.lon,
  self.elements.lat\<close> without copying, so what these names hold after
  \<^verbatim>\<open>advect_ocean_current\<close> depends on how that method stores the new positions:
  \<open>advects_in_place\<close> says that it writes them into the existing arrays (the kept names
  then show the new positions) rather than binding new arrays to the attributes (the kept
  names then still show the old ones). \<^verbatim>\<open>z_before\<close> is a copy.
  \<^verbatim>\<open>update_terminal_velocity\<close> assigns \<^verbatim>\<open>self.elements.terminal_velocity\<close> only.
\<close>

record host =
  vertical_mixing :: "elements \<Rightarrow> elements"
  advect_ocean_current :: "elements \<Rightarrow> elements"
  advects_in_place :: bool
  vertical_advection :: "elements \<Rightarrow> elements"

definition is_specie :: "elements \<Rightarrow> nat \<Rightarrow> bool list" where
  "is_specie el k = map (\<lambda>sp. sp = k) (specie el)"

definition reset_lon_lat :: "real list \<Rightarrow> real list \<Rightarrow> nat \<Rightarrow> elements \<Rightarrow> elements" where
  "reset_lon_lat lon0 lat0 k el =
     (let el1 = el\<lparr>lon := assign_where (is_specie el k) (lon el) lon0\<rparr>
      in el1\<lparr>lat := assign_where (is_specie el1 k) (lat el1) lat0\<rparr>)"

definition reset_z :: "real list \<Rightarrow> nat \<Rightarrow> elements \<Rightarrow> elements" where
  "reset_z z_before k el = el\<lparr>z := assign_where (is_specie el k) (z el) z_before\<rparr>"

text \<open>The part of \<^verbatim>\<open>update\<close> that follows the speciation, from \<^verbatim>\<open>z_before =
  self.elements.z.copy()\<close> on.\<close>

definition move_and_reset :: "sim \<Rightarrow> host \<Rightarrow> elements \<Rightarrow> outcome" where
  "move_and_reset s h el =
     (let z_before = z el;
          el = vertical_mixing h el;
          el' = advect_ocean_current h el;
          lon0 = (if advects_in_place h then lon el' else lon el);
          lat0 = (if advects_in_place h then lat el' else lat el)
      in seq (with_attr (num_srev s) (\<lambda>srev. (reset_lon_lat lon0 lat0 srev el', None)) el') (\<lambda>el.
         seq (if slowly_fraction (config s)
              then with_attr (num_ssrev s) (\<lambda>ssrev. (reset_lon_lat lon0 lat0 ssrev el, None)) el
              else (el, None)) (\<lambda>el.
         seq (if irreversible_fraction (config s)
              then with_attr (num_sirrev s) (\<lambda>sirrev. (reset_lon_lat lon0 lat0 sirrev el, None)) el
              else (el, None)) (\<lambda>el.
           let el = (if verticaladvection (config s) then vertical_advection h el else el)
           in seq (with_attr (num_srev s) (\<lambda>srev. (reset_z z_before srev el, None)) el) (\<lambda>el.
              seq (if slowly_fraction (config s)
                   then with_attr (num_ssrev s) (\<lambda>ssrev. (reset_z z_before ssrev el, None)) el
                   else (el, None)) (\<lambda>el.
              if irreversible_fraction (config s)
              then with_attr (num_sirrev s) (\<lambda>sirrev. (reset_z z_before sirrev el, None)) el
              else (el, None)))))))"

text \<open>\<^verbatim>\<open>update\<close>.\<close>

definition update ::
  "sim \<Rightarrow> environment \<Rightarrow> rng \<Rightarrow> nat \<Rightarrow> host \<Rightarrow> elements \<Rightarrow> outcome" where
  "update s env g deltat h el =
     seq (update_transfer_rates s env el) (\<lambda>el.
     seq (update_speciation s env g deltat el) (move_and_reset s h))"

subsection \<open>The step on array objects\<close>

text \<open>
  The same methods with the two-dimensional arrays as objects. Such an array has an
  identity; \<open>content\<close> gives what each holds and the identities below \<open>allocated\<close> are in
  use. \<^verbatim>\<open>self.transfer_rates\<close> and \<^verbatim>\<open>self.elements.transfer_rates1D\<close> are references to
  array objects, and the field \<open>transfer_rates1D\<close> of the ensemble shows what the array
  behind the second reference holds.
\<close>

record arrays =
  content :: "nat \<Rightarrow> real list list"
  allocated :: nat

record refs =
  transfer_rates_ref :: nat
  transfer_rates1D_ref :: "nat option"

type_synonym objects = "elements \<times> refs \<times> arrays"

definition new_array :: "real list list \<Rightarrow> arrays \<Rightarrow> nat \<times> arrays" where
  "new_array v h = (allocated h, \<lparr>content = (content h)(allocated h := v),
                                  allocated = Suc (allocated h)\<rparr>)"

definition write_array :: "nat \<Rightarrow> real list list \<Rightarrow> arrays \<Rightarrow> arrays" where
  "write_array r v h = h\<lparr>content := (content h)(r := v)\<rparr>"

text \<open>
  \<^verbatim>\<open>update_transfer_rates\<close>: numpy's indexing with the integer array
  \<^verbatim>\<open>self.elements.specie\<close> returns a new array object (a copy, never a view), to which
  \<^verbatim>\<open>self.elements.transfer_rates1D\<close> is bound; the two masked assignments write into the
  object behind that reference.
\<close>

definition update_transfer_rates_obj ::
  "sim \<Rightarrow> environment \<Rightarrow> objects \<Rightarrow> objects \<times> error option" where
  "update_transfer_rates_obj s env st =
     (case st of (el, rf, h) \<Rightarrow>
      if \<exists>sp \<in> set (specie el). length (content h (transfer_rates_ref rf)) \<le> sp
      then (st, Some IndexError)
      else
        let (r, h1) = new_array (take_rows (content h (transfer_rates_ref rf)) (specie el)) h;
            rf1 = rf\<lparr>transfer_rates1D_ref := Some r\<rparr>;
            el1 = el\<lparr>transfer_rates1D := content h1 r\<rparr>;
            Zmin = map (\<lambda>d. - 1 * d) (sea_floor_depth_below_sea_level env);
            interaction_thick = layer_thick (config s);
            dist_to_seabed = map (\<lambda>i. z el1 ! i - Zmin ! i) [0..<length (z el1)]
        in case num_lmm s of None \<Rightarrow> ((el1, rf1, h1), Some AttributeError) | Some lmm \<Rightarrow>
           case num_srev s of None \<Rightarrow> ((el1, rf1, h1), Some AttributeError) | Some srev \<Rightarrow>
             let h2 = write_array r (zero_srev lmm srev interaction_thick (specie el1)
                                       dist_to_seabed (content h1 r)) h1;
                 el2 = el1\<lparr>transfer_rates1D := content h2 r\<rparr>
             in case num_prev s of None \<Rightarrow> ((el2, rf1, h2), Some AttributeError) | Some prev \<Rightarrow>
                  let h3 = write_array r (scale_prev lmm prev (specie el2) (conc3 env)
                                            (content h2 r)) h2
                  in ((el2\<lparr>transfer_rates1D := content h3 r\<rparr>, rf1, h3), None))"

text \<open>
  \<^verbatim>\<open>update_speciation\<close> reads the rows through \<^verbatim>\<open>self.elements.transfer_rates1D\<close>; the
  arrays it computes from them (\<^verbatim>\<open>p\<close> and its selections) are temporaries that it does not
  write into, and it writes into no two-dimensional array that exists. An ensemble
  without the attribute raises AttributeError.
\<close>

definition update_speciation_obj ::
  "sim \<Rightarrow> environment \<Rightarrow> rng \<Rightarrow> nat \<Rightarrow> objects \<Rightarrow> objects \<times> error option" where
  "update_speciation_obj s env g deltat st =
     (case st of (el, rf, h) \<Rightarrow>
      case transfer_rates1D_ref rf of
        None \<Rightarrow> (st, Some AttributeError)
      | Some r \<Rightarrow>
          (case update_speciation s env g deltat (el\<lparr>transfer_rates1D := content h r\<rparr>) of
             (el', e) \<Rightarrow> ((el', rf, h), e)))"

text \<open>The methods that read and write one-dimensional arrays only: the handlers inside
  \<^verbatim>\<open>update_speciation\<close>, \<^verbatim>\<open>bottom_interaction\<close> and the rest of \<^verbatim>\<open>update\<close>.\<close>

definition on_elements :: "(elements \<Rightarrow> outcome) \<Rightarrow> objects \<Rightarrow> objects \<times> error option" where
  "on_elements f st = (case st of (el, rf, h) \<Rightarrow> case f el of (el', e) \<Rightarrow> ((el', rf, h), e))"

definition bottom_interaction_obj :: "sim \<Rightarrow> real \<Rightarrow> objects \<Rightarrow> objects \<times> error option" where
  "bottom_interaction_obj s Zmin = on_elements (bottom_interaction s Zmin)"

definition update_obj ::
  "sim \<Rightarrow> environment \<Rightarrow> rng \<Rightarrow> nat \<Rightarrow> host \<Rightarrow> objects \<Rightarrow> objects \<times> error option" where
  "update_obj s env g deltat h st =
     seq (update_transfer_rates_obj s env st) (\<lambda>st.
     seq (update_speciation_obj s env g deltat st) (on_elements (move_and_reset s h)))"

text \<open>What a method leaves of the arrays that existed before it: \<^verbatim>\<open>self.transfer_rates\<close>
  names the object it named, and every array that existed holds what it held.\<close>

definition unwritten :: "refs \<Rightarrow> arrays \<Rightarrow> objects \<times> error option \<Rightarrow> bool" where
  "unwritten rf h r =
     (case r of ((el', rf', h'), e) \<Rightarrow>
        transfer_rates_ref rf' = transfer_rates_ref rf \<and> allocated h \<le> allocated h' \<and>
        (\<forall>a < allocated h. content h' a = content h a))"

subsection \<open>Vocabulary of the properties\<close>

text \<open>The entry \<^verbatim>\<open>p[i][j]\<close> that a rate \<open>r\<close> gives for a time step of \<open>deltat\<close> seconds.\<close>

abbreviation transfer_probability :: "nat \<Rightarrow> real \<Rightarrow> real" where
  "transfer_probability deltat r \<equiv> 1 - exp (- r * real deltat)"

text \<open>\<^verbatim>\<open>psum[i]\<close>, \<^verbatim>\<open>phaseshift[i]\<close> and the position in \<^verbatim>\<open>ran4\<close> (and \<^verbatim>\<open>ttmp\<close>) of element \<open>i\<close>
  when it is transformed: the number of transformed elements before it.\<close>

definition p_total :: "elements \<Rightarrow> nat \<Rightarrow> nat \<Rightarrow> real" where
  "p_total el deltat i = sum_list (map (transfer_probability deltat) (transfer_rates1D el ! i))"

definition transitions :: "rng \<Rightarrow> elements \<Rightarrow> nat \<Rightarrow> nat \<Rightarrow> bool" where
  "transitions g el deltat i \<longleftrightarrow> ran1 g i < p_total el deltat i"

definition draw_index :: "rng \<Rightarrow> elements \<Rightarrow> nat \<Rightarrow> nat \<Rightarrow> nat" where
  "draw_index g el deltat i = length (filter (transitions g el deltat) [0..<i])"

text \<open>The total probability and the destination as the specification words them:
  \<open>1 - exp(-\<Sum>\<^sub>j row[j] \<cdot> \<Delta>t)\<close>, and the first index at which the cumulative distribution of
  the row, normalised by the row sum, exceeds \<open>v\<close>.\<close>

definition p_total_spec :: "real list \<Rightarrow> nat \<Rightarrow> real" where
  "p_total_spec row deltat = 1 - exp (- (sum_list row) * real deltat)"

definition select_spec :: "real list \<Rightarrow> real \<Rightarrow> nat" where
  "select_spec row v =
     length (takeWhile (\<lambda>c. \<not> v < c) (cumsum (map (\<lambda>r. r / sum_list row) row)))"

text \<open>Shape and sign of a matrix.\<close>

definition nonneg_matrix :: "real list list \<Rightarrow> bool" where
  "nonneg_matrix m \<longleftrightarrow> (\<forall>row \<in> set m. \<forall>x \<in> set row. 0 \<le> x)"

definition square :: "nat \<Rightarrow> real list list \<Rightarrow> bool" where
  "square n m \<longleftrightarrow> length m = n \<and> (\<forall>row \<in> set m. length row = n)"

text \<open>The six rates that the branch for Bokna_137Cs writes are not negative.\<close>

definition bokna_rates_nonneg :: "config \<Rightarrow> bool" where
  "bokna_rates_nonneg c \<longleftrightarrow> 0 \<le> Dc c * Kd c * (1 / 10 ^ 3) \<and> 0 \<le> Dc c \<and>
     0 \<le> Dc c * Kd c * sedmixdepth c * sediment_density c * (1 - porosity c)
           * effective_fraction c * corr_factor c / layer_thick c \<and>
     0 \<le> Dc c * corr_factor c \<and> 0 \<le> slow_coeff c \<and> 0 \<le> slow_coeff c * (1 / 10)"

text \<open>An index attribute holds the position of a name of \<^verbatim>\<open>name_species\<close>.\<close>

definition indexed :: "sim \<Rightarrow> nat option \<Rightarrow> string \<Rightarrow> bool" where
  "indexed s a name \<longleftrightarrow>
     name \<in> set (name_species s) \<and> a = Some (index_of (name_species s) name)"

text \<open>The sediment compartments that \<^verbatim>\<open>update\<close> resets when the irreversible fraction is
  off.\<close>

definition rests :: "sim \<Rightarrow> nat \<Rightarrow> bool" where
  "rests s sp \<longleftrightarrow>
     num_srev s = Some sp \<or> (slowly_fraction (config s) \<and> num_ssrev s = Some sp)"

text \<open>What the property of \<^verbatim>\<open>update\<close> asks of the host: its three methods keep the length of
  the arrays and the specie of the elements at rest, and vertical advection leaves the
  horizontal position alone.\<close>

definition keeps_ensemble :: "sim \<Rightarrow> (elements \<Rightarrow> elements) \<Rightarrow> bool" where
  "keeps_ensemble s f \<longleftrightarrow>
     (\<forall>x. length (lon (f x)) = length (lon x) \<and> length (lat (f x)) = length (lat x) \<and>
          length (z (f x)) = length (z x) \<and> length (specie (f x)) = length (specie x) \<and>
          (\<forall>i < length (specie x). rests s (specie x ! i) \<longrightarrow> specie (f x) ! i = specie x ! i))"

definition well_behaved :: "sim \<Rightarrow> host \<Rightarrow> bool" where
  "well_behaved s h \<longleftrightarrow>
     keeps_ensemble s (vertical_mixing h) \<and> keeps_ensemble s (advect_ocean_current h) \<and>
     keeps_ensemble s (vertical_advection h) \<and>
     (\<forall>x. lon (vertical_advection h x) = lon x \<and> lat (vertical_advection h x) = lat x)"

text \<open>The particulate compartments, by name.\<close>

definition is_particulate :: "sim \<Rightarrow> nat \<Rightarrow> bool" where
  "is_particulate s sp \<longleftrightarrow>
     sp < length (name_species s) \<and>
     name_species s ! sp \<in> {''Particle reversible'', ''Particle slowly reversible'',
                             ''Particle irreversible''}"

subsection \<open>Configurations and inputs used as examples\<close>

text \<open>The defaults of the configuration specification.\<close>

definition default_config :: config where
  "default_config =
     \<lparr>transfer_setup = ''dummy'', slowly_fraction = False, irreversible_fraction = False,
      dissolved_diameter = 0, particle_diameter = 5 / 10 ^ 6,
      particle_diameter_uncertainty = 1 / 10 ^ 7,
      species_LMM = False, species_Colloid = False, species_Particle_reversible = False,
      species_Particle_slowly_reversible = False, species_Particle_irreversible = False,
      species_Sediment_reversible = False, species_Sediment_slowly_reversible = False,
      species_Sediment_irreversible = False,
      Kd = 0, Dc = 116 / 10 ^ 7, slow_coeff = 12 / 10 ^ 8,
      sedmixdepth = 1, sediment_density = 2600, effective_fraction = 9 / 10,
      corr_factor = 1 / 10, porosity = 6 / 10, layer_thick = 1, desorption_depth = 10,
      desorption_depth_uncert = 1, verticaladvection = False\<rparr>"

definition dummy_config :: config where
  "dummy_config = default_config\<lparr>species_LMM := True, species_Particle_reversible := True,
      species_Sediment_reversible := True\<rparr>"

definition bokna_config :: config where
  "bokna_config = default_config\<lparr>transfer_setup := ''Bokna_137Cs'', species_LMM := True,
      species_Particle_reversible := True, species_Particle_slowly_reversible := True,
      species_Sediment_reversible := True, species_Sediment_slowly_reversible := True,
      Kd := 2\<rparr>"

text \<open>Random draws that return \<open>u\<close> for every entry of \<^verbatim>\<open>ran1\<close>, \<open>v\<close> for every entry of
  \<^verbatim>\<open>ran4\<close> and no noise.\<close>

definition fixed_draws :: "real \<Rightarrow> real \<Rightarrow> rng" where
  "fixed_draws u v = \<lparr>ran1 = (\<lambda>i. u), ran4 = (\<lambda>ii. v), normal_prev = (\<lambda>k. 0),
     normal_psrev = (\<lambda>k. 0), normal_pirrev = (\<lambda>k. 0), normal_desorb = (\<lambda>k. 0)\<rparr>"

text \<open>The object that \<^verbatim>\<open>prepare_run\<close> leaves for \<open>dummy_config\<close>.\<close>

definition dummy_sim :: sim where
  "dummy_sim =
     \<lparr>config = dummy_config,
      name_species = [''LMM'', ''Particle reversible'', ''Sediment reversible''],
      nspecies = 3,
      transfer_rates = [[0, 1 / 10 ^ 5, 0], [0, 0, 0], [5 / 10 ^ 6, 0, 0]],
      num_lmm = Some 0, num_col = None, num_prev = Some 1, num_srev = Some 2,
      num_psrev = None, num_ssrev = None, num_pirrev = None, num_sirrev = None\<rparr>"

text \<open>The dummy setup with the irreversible compartments enabled, and the object that
  \<^verbatim>\<open>prepare_run\<close> leaves for it.\<close>

definition irreversible_config :: config where
  "irreversible_config = dummy_config\<lparr>species_Particle_irreversible := True,
      species_Sediment_irreversible := True\<rparr>"

definition irreversible_sim :: sim where
  "irreversible_sim =
     \<lparr>config = irreversible_config\<lparr>irreversible_fraction := True\<rparr>,
      name_species = [''LMM'', ''Particle reversible'', ''Particle irreversible'',
                      ''Sediment reversible'', ''Sediment irreversible''],
      nspecies = 5,
      transfer_rates = [[0, 1 / 10 ^ 5, 0, 0, 0], [0, 0, 0, 0, 0], [0, 0, 0, 0, 0],
                        [5 / 10 ^ 6, 0, 0, 0, 0], [0, 0, 0, 0, 0]],
      num_lmm = Some 0, num_col = None, num_prev = Some 1, num_srev = Some 3,
      num_psrev = None, num_ssrev = None, num_pirrev = None, num_sirrev = None\<rparr>"

text \<open>One element over a sea floor at 100 m, with \<^verbatim>\<open>conc3\<close> at its fallback value.\<close>

definition one_element :: "nat \<Rightarrow> real \<Rightarrow> real list \<Rightarrow> elements" where
  "one_element sp depth row =
     \<lparr>lon = [4], lat = [60], z = [depth], diameter = [0], specie = [sp],
      transfer_rates1D = [row]\<rparr>"

definition one_environment :: environment where
  "one_environment = \<lparr>sea_floor_depth_below_sea_level = [100], conc3 = [1 / 10 ^ 3]\<rparr>"

text \<open>A host whose mixing raises every element by one metre and whose advection moves
  every element by a hundredth of a degree east, bound to a new array.\<close>

definition drifting_host :: host where
  "drifting_host =
     \<lparr>vertical_mixing = (\<lambda>el. el\<lparr>z := map (\<lambda>x. x + 1) (z el)\<rparr>),
      advect_ocean_current = (\<lambda>el. el\<lparr>lon := map (\<lambda>x. x + 1 / 100) (lon el)\<rparr>),
      advects_in_place = False,
      vertical_advection = (\<lambda>el. el)\<rparr>"

text \<open>Four elements around a threshold of -100 m: particle reversible at and above it,
  LMM below it, sediment reversible at it.\<close>

definition straddling :: elements where
  "straddling =
     \<lparr>lon = [4, 4, 4, 4], lat = [60, 60, 60, 60], z = [- 100, - 50, - 120, - 100],
      diameter = [5 / 10 ^ 6, 5 / 10 ^ 6, 0, 5 / 10 ^ 6], specie = [1, 1, 0, 2],
      transfer_rates1D = []\<rparr>"

text \<open>The object that \<^verbatim>\<open>prepare_run\<close> leaves for \<open>bokna_config\<close>.\<close>

definition bokna_sim :: sim where
  "bokna_sim =
     \<lparr>config = bokna_config\<lparr>slowly_fraction := True\<rparr>,
      name_species = [''LMM'', ''Particle reversible'', ''Particle slowly reversible'',
                      ''Sediment reversible'', ''Sediment slowly reversible''],
      nspecies = 5,
      transfer_rates =
        [[0, 29 / 1250000000, 0, 3393 / 1562500, 0],
         [29 / 2500000, 0, 3 / 25000000, 0, 0],
         [0, 3 / 250000000, 0, 0, 0],
         [29 / 25000000, 0, 0, 0, 3 / 25000000],
         [0, 0, 0, 3 / 250000000, 0]],
      num_lmm = Some 0, num_col = None, num_prev = Some 1, num_srev = Some 3,
      num_psrev = Some 2, num_ssrev = Some 4, num_pirrev = None, num_sirrev = None\<rparr>"

text \<open>One LMM element 50 m above the sea floor, in water with twice the reference
  concentration, and array objects in which the only array is the matrix of \<open>bokna_sim\<close>.\<close>

definition turbid_environment :: environment where
  "turbid_environment = \<lparr>sea_floor_depth_below_sea_level = [100], conc3 = [2 / 10 ^ 3]\<rparr>"

definition bokna_objects :: objects where
  "bokna_objects =
     (one_element 0 (- 50) [],
      \<lparr>transfer_rates_ref = 0, transfer_rates1D_ref = None\<rparr>,
      \<lparr>content = (\<lambda>a. if a = 0 then transfer_rates bokna_sim else []), allocated = 1\<rparr>)"

section \<open>Properties\<close>

subsection \<open>Matrices and the registry\<close>

lemma nonneg_set_rate: "nonneg_matrix m \<Longrightarrow> 0 \<le> v \<Longrightarrow> nonneg_matrix (set_rate m i j v)"
  unfolding nonneg_matrix_def set_rate_def
  by (metis (no_types, lifting) insert_iff list_update_beyond not_le_imp_less nth_mem
      set_update_subset_insert subsetD)

lemma square_set_rate: "square n m \<Longrightarrow> square n (set_rate m i j v)"
  unfolding square_def set_rate_def
  by (metis (no_types, lifting) insert_iff length_list_update list_update_beyond
      not_le_imp_less nth_mem set_update_subset_insert subsetD)

lemma nonneg_zeros: "nonneg_matrix (zeros n)"
  by (auto simp: nonneg_matrix_def zeros_def)

lemma square_zeros: "square n (zeros n)"
  by (auto simp: square_def zeros_def)

lemma fill_diagonal_props:
  assumes "square n m" "nonneg_matrix m"
  shows "square n (fill_diagonal m)" "nonneg_matrix (fill_diagonal m)"
    "\<forall>i<n. fill_diagonal m ! i ! i = 0"
  using assms unfolding square_def nonneg_matrix_def fill_diagonal_def
  apply auto
  apply (metis (no_types, lifting) insert_iff nth_mem set_update_subset_insert subsetD
      order_refl)
  done

lemma index_of_less: "a \<in> set xs \<Longrightarrow> index_of xs a < length xs"
  by (induction xs) auto

lemma nth_index_of: "a \<in> set xs \<Longrightarrow> xs ! index_of xs a = a"
  by (induction xs) auto

lemma index_of_inj: "a \<in> set xs \<Longrightarrow> b \<in> set xs \<Longrightarrow> index_of xs a = index_of xs b \<Longrightarrow> a = b"
  by (metis nth_index_of)

lemma seq_None: "seq r f = (y, None) \<longleftrightarrow> (\<exists>x. r = (x, None) \<and> f x = (y, None))"
  by (cases r) (auto simp: seq_def split: option.splits)

lemma with_index_None:
  "with_index s name k = (y, None) \<longleftrightarrow>
     name \<in> set (name_species s) \<and> k (index_of (name_species s) name) = (y, None)"
  by (auto simp: with_index_def specie_name2num_def)

lemma in_range_bokna: "config_in_range c \<Longrightarrow> bokna_rates_nonneg c"
  unfolding config_in_range_def bokna_rates_nonneg_def
  by (auto intro!: mult_nonneg_nonneg divide_nonneg_nonneg)

lemma bokna_matrix:
  assumes "bokna_137Cs s = (s', None)" "square n (transfer_rates s)" "nonneg_matrix (transfer_rates s)"
    "config_in_range (config s)"
  shows "square n (transfer_rates s') \<and> nonneg_matrix (transfer_rates s')"
proof -
  have nn: "bokna_rates_nonneg (config s)" using assms(4) by (rule in_range_bokna)
  show ?thesis
    using assms(1-3) nn
    unfolding bokna_rates_nonneg_def
    by (auto simp: bokna_137Cs_def with_index_None seq_None Let_def split: if_splits
        intro!: nonneg_set_rate square_set_rate)
qed

lemma dummy_matrix:
  assumes "dummy s = (s', None)" "square n (transfer_rates s)" "nonneg_matrix (transfer_rates s)"
  shows "square n (transfer_rates s') \<and> nonneg_matrix (transfer_rates s')"
  using assms
  by (auto simp: dummy_def with_index_None seq_None Let_def split: if_splits
      intro!: nonneg_set_rate square_set_rate)

lemma init_matrix:
  assumes "init_transfer_rates s0 = (s, None)" "config_in_range (config s0)"
  shows "square (nspecies s0) (transfer_rates s) \<and> nonneg_matrix (transfer_rates s) \<and>
         (\<forall>i<nspecies s0. transfer_rates s ! i ! i = 0)"
proof -
  let ?s = "s0\<lparr>transfer_rates := zeros (nspecies s0)\<rparr>"
  from assms(1) obtain s' where s': "(if transfer_setup (config ?s) = ''Bokna_137Cs'' then bokna_137Cs ?s
            else if transfer_setup (config ?s) = ''dummy'' then dummy ?s
            else (?s, Some TypeError)) = (s', None)" and s: "s = s'\<lparr>transfer_rates := fill_diagonal (transfer_rates s')\<rparr>"
    unfolding init_transfer_rates_def Let_def seq_None by auto
  have "square (nspecies s0) (transfer_rates s') \<and> nonneg_matrix (transfer_rates s')"
  proof (cases "transfer_setup (config ?s) = ''Bokna_137Cs''")
    case True
    with s' have "bokna_137Cs ?s = (s', None)" by simp
    then show ?thesis using bokna_matrix[of ?s s' "nspecies s0"] assms(2)
      by (simp add: square_zeros nonneg_zeros)
  next
    case False
    with s' have "dummy ?s = (s', None)" by (simp split: if_splits)
    then show ?thesis using dummy_matrix[of ?s s' "nspecies s0"]
      by (simp add: square_zeros nonneg_zeros)
  qed
  then show ?thesis using fill_diagonal_props[of "nspecies s0" "transfer_rates s'"] s by simp
qed

lemma bokna_nums:
  assumes "bokna_137Cs s0 = (s, None)"
  shows "name_species s = name_species s0 \<and> nspecies s = nspecies s0 \<and> config s = config s0 \<and>
     num_pirrev s = num_pirrev s0 \<and> num_sirrev s = num_sirrev s0 \<and>
     indexed s (num_lmm s) ''LMM'' \<and> indexed s (num_prev s) ''Particle reversible'' \<and>
     indexed s (num_srev s) ''Sediment reversible'' \<and>
     indexed s (num_psrev s) ''Particle slowly reversible'' \<and>
     indexed s (num_ssrev s) ''Sediment slowly reversible''"
  using assms
  by (auto simp: bokna_137Cs_def with_index_None seq_None Let_def indexed_def
      split: if_splits)

lemma dummy_nums:
  assumes "dummy s0 = (s, None)"
  shows "name_species s = name_species s0 \<and> nspecies s = nspecies s0 \<and> config s = config s0 \<and>
     num_pirrev s = num_pirrev s0 \<and> num_sirrev s = num_sirrev s0 \<and>
     indexed s (num_lmm s) ''LMM'' \<and> indexed s (num_prev s) ''Particle reversible'' \<and>
     indexed s (num_srev s) ''Sediment reversible'' \<and>
     (slowly_fraction (config s) \<longrightarrow>
        indexed s (num_psrev s) ''Particle slowly reversible'' \<and>
        indexed s (num_ssrev s) ''Sediment slowly reversible'')"
  using assms
  by (auto simp: dummy_def with_index_None seq_None Let_def indexed_def
      split: if_splits prod.splits)

lemma init_nums:
  assumes "init_transfer_rates s0 = (s, None)"
  shows "name_species s = name_species s0 \<and> nspecies s = nspecies s0 \<and> config s = config s0 \<and>
     num_pirrev s = num_pirrev s0 \<and> num_sirrev s = num_sirrev s0 \<and>
     indexed s (num_lmm s) ''LMM'' \<and> indexed s (num_prev s) ''Particle reversible'' \<and>
     indexed s (num_srev s) ''Sediment reversible'' \<and>
     (slowly_fraction (config s) \<longrightarrow>
        indexed s (num_psrev s) ''Particle slowly reversible'' \<and>
        indexed s (num_ssrev s) ''Sediment slowly reversible'')"
proof -
  let ?s = "s0\<lparr>transfer_rates := zeros (nspecies s0)\<rparr>"
  from assms obtain s' where s': "(if transfer_setup (config ?s) = ''Bokna_137Cs'' then bokna_137Cs ?s
            else if transfer_setup (config ?s) = ''dummy'' then dummy ?s
            else (?s, Some TypeError)) = (s', None)" and s: "s = s'\<lparr>transfer_rates := fill_diagonal (transfer_rates s')\<rparr>"
    unfolding init_transfer_rates_def Let_def seq_None by auto
  show ?thesis
  proof (cases "transfer_setup (config ?s) = ''Bokna_137Cs''")
    case True
    with s' have "bokna_137Cs ?s = (s', None)" by simp
    from bokna_nums[OF this] show ?thesis using s by (auto simp: indexed_def)
  next
    case False
    with s' have "dummy ?s = (s', None)" by (simp split: if_splits)
    from dummy_nums[OF this] show ?thesis using s by (auto simp: indexed_def)
  qed
qed

lemma prepare_run_nums:
  assumes "prepare_run c = (s, None)"
  shows "nspecies s = length (name_species s) \<and>
     num_pirrev s = None \<and> num_sirrev s = None \<and>
     indexed s (num_lmm s) ''LMM'' \<and> indexed s (num_prev s) ''Particle reversible'' \<and>
     indexed s (num_srev s) ''Sediment reversible'' \<and>
     (slowly_fraction (config s) \<longrightarrow>
        indexed s (num_psrev s) ''Particle slowly reversible'' \<and>
        indexed s (num_ssrev s) ''Sediment slowly reversible'')"
  using init_nums[OF assms[unfolded prepare_run_def Let_def]] by simp

lemma config_in_range_flags:
  "config_in_range (c\<lparr>slowly_fraction := b\<rparr>) = config_in_range c"
  "config_in_range (c\<lparr>irreversible_fraction := b\<rparr>) = config_in_range c"
  by (simp_all add: config_in_range_def)

lemma prepare_run_matrix:
  assumes "prepare_run c = (s, None)" "config_in_range c"
  shows "square (nspecies s) (transfer_rates s) \<and> nonneg_matrix (transfer_rates s) \<and>
         (\<forall>i<nspecies s. transfer_rates s ! i ! i = 0)"
proof -
  obtain s0 where i: "init_transfer_rates s0 = (s, None)" and c: "config_in_range (config s0)"
    using assms unfolding prepare_run_def Let_def
    by (auto simp: config_in_range_flags split: if_splits)
  show ?thesis using init_matrix[OF i c] init_nums[OF i] by simp
qed

lemma indexed_less: "indexed s a name \<Longrightarrow> \<exists>k. a = Some k \<and> k < length (name_species s) \<and> name_species s ! k = name"
  by (auto simp: indexed_def index_of_less nth_index_of)

lemma indexed_distinct:
  "indexed s a n1 \<Longrightarrow> indexed s b n2 \<Longrightarrow> n1 \<noteq> n2 \<Longrightarrow> a \<noteq> b"
  by (auto simp: indexed_def dest: index_of_inj)

lemma update_transfer_rates_result:
  assumes "num_lmm s = Some lmm" "num_srev s = Some srev" "num_prev s = Some prev"
    and "\<forall>sp \<in> set (specie el). sp < length (transfer_rates s)"
  shows "update_transfer_rates s env el =
     (el\<lparr>transfer_rates1D :=
           scale_prev lmm prev (specie el) (conc3 env)
             (zero_srev lmm srev (layer_thick (config s)) (specie el)
                (map (\<lambda>i. z el ! i - map (\<lambda>d. - 1 * d) (sea_floor_depth_below_sea_level env) ! i)
                   [0..<length (z el)])
                (take_rows (transfer_rates s) (specie el)))\<rparr>, None)"
proof -
  have "\<not> (\<exists>sp \<in> set (specie el). length (transfer_rates s) \<le> sp)"
    using assms(4) by (auto simp: not_le)
  moreover have "(*) (- 1) = (uminus :: real \<Rightarrow> real)" by (rule ext) simp
  ultimately show ?thesis
    using assms(1-3) by (simp add: update_transfer_rates_def with_attr_def Let_def)
qed

lemma projected_row:
  assumes i: "i < length sp" and lz: "length zs = length sp" and ld: "length depth = length sp"
  shows "scale_prev lmm prev sp conc
           (zero_srev lmm srev thick sp
              (map (\<lambda>i. zs ! i - map (\<lambda>d. - 1 * d) depth ! i) [0..<length zs])
              (take_rows m sp)) ! i =
         (if sp ! i = lmm
          then let row = (if thick < zs ! i + depth ! i then (m ! lmm)[srev := 0] else m ! lmm)
               in row[prev := row ! prev * conc ! i / (1 / 10 ^ 3)]
          else m ! (sp ! i))"
  using i lz ld by (simp add: scale_prev_def zero_srev_def take_rows_def Let_def)

lemma bokna_square:
  "bokna_137Cs s = (s', None) \<Longrightarrow> square n (transfer_rates s) \<Longrightarrow> square n (transfer_rates s')"
  by (auto simp: bokna_137Cs_def with_index_None seq_None Let_def split: if_splits
      intro!: square_set_rate)

lemma dummy_square:
  "dummy s = (s', None) \<Longrightarrow> square n (transfer_rates s) \<Longrightarrow> square n (transfer_rates s')"
  by (auto simp: dummy_def with_index_None seq_None Let_def split: if_splits
      intro!: square_set_rate)

lemma square_fill_diagonal: "square n m \<Longrightarrow> square n (fill_diagonal m)"
  unfolding square_def fill_diagonal_def by auto

lemma init_square:
  assumes "init_transfer_rates s0 = (s, None)"
  shows "square (nspecies s0) (transfer_rates s)"
proof -
  let ?s = "s0\<lparr>transfer_rates := zeros (nspecies s0)\<rparr>"
  from assms obtain s' where s': "(if transfer_setup (config ?s) = ''Bokna_137Cs'' then bokna_137Cs ?s
            else if transfer_setup (config ?s) = ''dummy'' then dummy ?s
            else (?s, Some TypeError)) = (s', None)" and s: "s = s'\<lparr>transfer_rates := fill_diagonal (transfer_rates s')\<rparr>"
    unfolding init_transfer_rates_def Let_def seq_None by auto
  have "square (nspecies s0) (transfer_rates s')"
  proof (cases "transfer_setup (config ?s) = ''Bokna_137Cs''")
    case True
    with s' have "bokna_137Cs ?s = (s', None)" by simp
    then show ?thesis using bokna_square[of ?s s' "nspecies s0"] by (simp add: square_zeros)
  next
    case False
    with s' have "dummy ?s = (s', None)" by (simp split: if_splits)
    then show ?thesis using dummy_square[of ?s s' "nspecies s0"] by (simp add: square_zeros)
  qed
  then show ?thesis using s by (simp add: square_fill_diagonal)
qed

lemma prepare_run_square:
  assumes "prepare_run c = (s, None)"
  shows "square (nspecies s) (transfer_rates s)"
  using init_square[OF assms[unfolded prepare_run_def Let_def]]
    init_nums[OF assms[unfolded prepare_run_def Let_def]] by simp

lemma prepare_run_indices:
  assumes "prepare_run c = (s, None)"
  obtains lmm prev srev where
    "num_lmm s = Some lmm" "num_prev s = Some prev" "num_srev s = Some srev"
    "lmm < nspecies s" "prev < nspecies s" "srev < nspecies s"
    "lmm \<noteq> prev" "lmm \<noteq> srev" "prev \<noteq> srev"
    "name_species s ! lmm = ''LMM''" "name_species s ! prev = ''Particle reversible''"
    "name_species s ! srev = ''Sediment reversible''"
proof -
  note n = prepare_run_nums[OF assms]
  from n have a: "indexed s (num_lmm s) ''LMM''" and b: "indexed s (num_prev s) ''Particle reversible''"
    and c: "indexed s (num_srev s) ''Sediment reversible''" and len: "nspecies s = length (name_species s)"
    by simp_all
  from indexed_less[OF a] obtain lmm where 1: "num_lmm s = Some lmm" "lmm < length (name_species s)" "name_species s ! lmm = ''LMM''" by auto
  from indexed_less[OF b] obtain prev where 2: "num_prev s = Some prev" "prev < length (name_species s)" "name_species s ! prev = ''Particle reversible''" by auto
  from indexed_less[OF c] obtain srev where 3: "num_srev s = Some srev" "srev < length (name_species s)" "name_species s ! srev = ''Sediment reversible''" by auto
  have "lmm \<noteq> prev" "lmm \<noteq> srev" "prev \<noteq> srev" using 1 2 3 by auto
  then show ?thesis using that 1 2 3 len by simp
qed

lemma dummy_prepared: "\<exists>s. prepare_run dummy_config = (s, None)"
  by (simp add: prepare_run_def dummy_config_def default_config_def enabled_species_def
      init_transfer_rates_def dummy_def with_index_def seq_def specie_name2num_def Let_def)

lemma bokna_prepared: "\<exists>s. prepare_run bokna_config = (s, None)"
  by (simp add: prepare_run_def bokna_config_def default_config_def enabled_species_def
      init_transfer_rates_def bokna_137Cs_def with_index_def seq_def specie_name2num_def Let_def)

lemma prepare_run_dummy: "prepare_run dummy_config = (dummy_sim, None)"
  by (simp add: prepare_run_def dummy_config_def default_config_def enabled_species_def
      init_transfer_rates_def dummy_def with_index_def seq_def specie_name2num_def Let_def
      zeros_def set_rate_def fill_diagonal_def dummy_sim_def)

lemma prepare_run_bokna: "prepare_run bokna_config = (bokna_sim, None)"
  by (simp add: prepare_run_def bokna_config_def default_config_def enabled_species_def
      init_transfer_rates_def bokna_137Cs_def with_index_def seq_def specie_name2num_def Let_def
      zeros_def set_rate_def fill_diagonal_def bokna_sim_def)

lemma prepare_run_irreversible: "prepare_run irreversible_config = (irreversible_sim, None)"
  by (simp add: prepare_run_def irreversible_config_def dummy_config_def default_config_def
      enabled_species_def
      init_transfer_rates_def dummy_def with_index_def seq_def specie_name2num_def Let_def
      zeros_def set_rate_def fill_diagonal_def irreversible_sim_def)

lemma prepare_run_no_noise:
  "prepare_run (dummy_config\<lparr>desorption_depth_uncert := 0\<rparr>)
     = (dummy_sim\<lparr>config := dummy_config\<lparr>desorption_depth_uncert := 0\<rparr>\<rparr>, None)"
  by (simp add: prepare_run_def dummy_config_def default_config_def enabled_species_def
      init_transfer_rates_def dummy_def with_index_def seq_def specie_name2num_def Let_def
      zeros_def set_rate_def fill_diagonal_def dummy_sim_def)

text \<open>When \<^verbatim>\<open>prepare_run\<close> returns.\<close>

lemma enabled_species_mem:
  "''LMM'' \<in> set (enabled_species c) \<longleftrightarrow> species_LMM c"
  "''Colloid'' \<in> set (enabled_species c) \<longleftrightarrow> species_Colloid c"
  "''Particle reversible'' \<in> set (enabled_species c) \<longleftrightarrow> species_Particle_reversible c"
  "''Particle slowly reversible'' \<in> set (enabled_species c) \<longleftrightarrow> species_Particle_slowly_reversible c"
  "''Sediment reversible'' \<in> set (enabled_species c) \<longleftrightarrow> species_Sediment_reversible c"
  "''Sediment slowly reversible'' \<in> set (enabled_species c) \<longleftrightarrow> species_Sediment_slowly_reversible c"
  by (simp_all add: enabled_species_def)

lemma enabled_species_flags:
  "enabled_species (c\<lparr>slowly_fraction := b\<rparr>) = enabled_species c"
  "enabled_species (c\<lparr>irreversible_fraction := b\<rparr>) = enabled_species c"
  by (simp_all add: enabled_species_def)

lemma prepare_run_returns_bokna:
  assumes "transfer_setup c = ''Bokna_137Cs''" and "layer_thick c \<noteq> 0"
    and "species_LMM c" "species_Particle_reversible c" "species_Sediment_reversible c"
      "species_Particle_slowly_reversible c" "species_Sediment_slowly_reversible c"
  shows "\<exists>s. prepare_run c = (s, None)"
  using assms
  by (simp add: prepare_run_def init_transfer_rates_def bokna_137Cs_def with_index_def seq_def
      specie_name2num_def enabled_species_mem Let_def)

lemma prepare_run_returns_dummy:
  assumes "transfer_setup c = ''dummy''"
    and "species_LMM c" "species_Particle_reversible c" "species_Sediment_reversible c"
    and "slowly_fraction c \<longrightarrow>
           species_Particle_slowly_reversible c \<and> species_Sediment_slowly_reversible c"
  shows "\<exists>s. prepare_run c = (s, None)"
  using assms
  by (auto simp: prepare_run_def init_transfer_rates_def dummy_def with_index_def seq_def
      specie_name2num_def enabled_species_mem Let_def)

subsection \<open>Unknown transfer setup\<close>

text \<open>
  C4, as the specification states it, fails: for the dummy configuration with the transfer
  setup \<^verbatim>\<open>'Bokna_134Cs'\<close>, \<^verbatim>\<open>prepare_run\<close> ends with the matrix of three rows of three zeros
  bound to \<^verbatim>\<open>self.transfer_rates\<close>, so a matrix has been produced, and the exception that
  ends it is the TypeError of the call \<^verbatim>\<open>logging.ERROR(...)\<close>, the code having no error for
  an unknown setup.
\<close>

theorem unknown_transfer_setup_counterexample:
  "prepare_run (dummy_config\<lparr>transfer_setup := ''Bokna_134Cs''\<rparr>)
   = (dummy_sim\<lparr>config := dummy_config\<lparr>transfer_setup := ''Bokna_134Cs''\<rparr>,
                 transfer_rates := [[0, 0, 0], [0, 0, 0], [0, 0, 0]],
                 num_lmm := None, num_prev := None, num_srev := None\<rparr>,
      Some TypeError)"
  by (simp add: prepare_run_def init_transfer_rates_def seq_def dummy_config_def
      default_config_def enabled_species_def dummy_sim_def zeros_def Let_def)

text \<open>
  C4, amended. For a transfer setup other than \<^verbatim>\<open>'Bokna_137Cs'\<close> and \<^verbatim>\<open>'dummy'\<close>,
  \<^verbatim>\<open>init_transfer_rates\<close> writes no rate and assigns no index attribute: it leaves the
  object it was called on with the matrix of \<^verbatim>\<open>nspecies\<close> rows of \<^verbatim>\<open>nspecies\<close> zeros bound
  to \<^verbatim>\<open>self.transfer_rates\<close>, and so does \<^verbatim>\<open>prepare_run\<close>, its caller.
\<close>

theorem unknown_transfer_setup_leaves_zero_matrix:
  assumes "transfer_setup c \<noteq> ''Bokna_137Cs''" and "transfer_setup c \<noteq> ''dummy''"
  shows "(\<forall>s. config s = c \<longrightarrow>
            fst (init_transfer_rates s) = s\<lparr>transfer_rates := zeros (nspecies s)\<rparr>) \<and>
         transfer_rates (fst (prepare_run c)) = zeros (length (enabled_species c)) \<and>
         nspecies (fst (prepare_run c)) = length (enabled_species c) \<and>
         num_lmm (fst (prepare_run c)) = None \<and> num_prev (fst (prepare_run c)) = None \<and>
         num_srev (fst (prepare_run c)) = None"
  using assms by (simp add: init_transfer_rates_def prepare_run_def seq_def Let_def)

theorem unknown_transfer_setup_leaves_zero_matrix_witness:
  "transfer_setup (dummy_config\<lparr>transfer_setup := ''Bokna_134Cs''\<rparr>) \<noteq> ''Bokna_137Cs'' \<and>
   transfer_setup (dummy_config\<lparr>transfer_setup := ''Bokna_134Cs''\<rparr>) \<noteq> ''dummy'' \<and>
   transfer_rates (fst (prepare_run (dummy_config\<lparr>transfer_setup := ''Bokna_134Cs''\<rparr>)))
     = [[0, 0, 0], [0, 0, 0], [0, 0, 0]] \<and>
   num_lmm (fst (prepare_run (dummy_config\<lparr>transfer_setup := ''Bokna_134Cs''\<rparr>))) = None"
  using unknown_transfer_setup_leaves_zero_matrix
          [of "dummy_config\<lparr>transfer_setup := ''Bokna_134Cs''\<rparr>"]
  by (simp add: dummy_config_def default_config_def enabled_species_def zeros_def)

text \<open>The call of the integer \<^verbatim>\<open>logging.ERROR\<close> is what ends the method for an unknown
  setup.\<close>

lemma unknown_transfer_setup_type_error:
  assumes "transfer_setup c \<noteq> ''Bokna_137Cs''" and "transfer_setup c \<noteq> ''dummy''"
  shows "snd (prepare_run c) = Some TypeError"
  using assms by (simp add: init_transfer_rates_def prepare_run_def seq_def Let_def)

text \<open>The other exceptions of the builder leave the object as far as it was built: a
  layer thickness of zero ends the branch for Bokna_137Cs with its first two rates
  written.\<close>

lemma bokna_zero_layer_thick:
  "prepare_run (bokna_config\<lparr>layer_thick := 0\<rparr>)
   = (bokna_sim\<lparr>config := bokna_config\<lparr>layer_thick := 0, slowly_fraction := True\<rparr>,
                 transfer_rates :=
                   [[0, 29 / 1250000000, 0, 0, 0], [29 / 2500000, 0, 0, 0, 0],
                    [0, 0, 0, 0, 0], [0, 0, 0, 0, 0], [0, 0, 0, 0, 0]]\<rparr>,
      Some ZeroDivisionError)"
  by (simp add: prepare_run_def init_transfer_rates_def bokna_137Cs_def with_index_def seq_def
      specie_name2num_def bokna_config_def default_config_def enabled_species_def
      bokna_sim_def zeros_def set_rate_def Let_def)

subsection \<open>The built matrix\<close>

text \<open>
  C5. Whenever \<^verbatim>\<open>prepare_run\<close> returns (which takes a recognised transfer setup) on a
  configuration whose parameters lie in their configured ranges, the matrix it leaves in
  \<^verbatim>\<open>self.transfer_rates\<close> has \<^verbatim>\<open>nspecies\<close> rows of \<^verbatim>\<open>nspecies\<close> entries, every diagonal entry
  is zero and no entry is negative.
\<close>

theorem built_matrix_zero_diagonal_nonneg:
  assumes "prepare_run c = (s, None)" and "config_in_range c"
  shows "length (transfer_rates s) = nspecies s \<and>
         (\<forall>i < nspecies s. length (transfer_rates s ! i) = nspecies s \<and>
                           transfer_rates s ! i ! i = 0 \<and>
                           (\<forall>j < nspecies s. 0 \<le> transfer_rates s ! i ! j))"
proof -
  note m = prepare_run_matrix [OF assms]
  then have sq: "length (transfer_rates s) = nspecies s"
    "\<And>i. i < nspecies s \<Longrightarrow> length (transfer_rates s ! i) = nspecies s"
    by (auto simp: square_def)
  have "0 \<le> transfer_rates s ! i ! j" if "i < nspecies s" "j < nspecies s" for i j
  proof -
    have "transfer_rates s ! i \<in> set (transfer_rates s)" using that sq by simp
    moreover have "transfer_rates s ! i ! j \<in> set (transfer_rates s ! i)" using that sq by simp
    ultimately show ?thesis using m by (auto simp: nonneg_matrix_def)
  qed
  then show ?thesis using m sq by simp
qed

theorem built_matrix_zero_diagonal_nonneg_witness:
  "config_in_range bokna_config \<and>
   (\<exists>s. prepare_run bokna_config = (s, None) \<and> nspecies s = 5 \<and>
        length (transfer_rates s) = nspecies s \<and>
        (\<forall>i < nspecies s. length (transfer_rates s ! i) = nspecies s \<and>
                          transfer_rates s ! i ! i = 0 \<and>
                          (\<forall>j < nspecies s. 0 \<le> transfer_rates s ! i ! j)))"
proof -
  have r: "config_in_range bokna_config"
    by (simp add: config_in_range_def bokna_config_def default_config_def)
  obtain s where s: "prepare_run bokna_config = (s, None)" using bokna_prepared by blast
  have n: "nspecies s = 5"
    using s by (auto simp: prepare_run_def bokna_config_def default_config_def
        enabled_species_def init_transfer_rates_def bokna_137Cs_def with_index_def seq_def
        specie_name2num_def Let_def)
  show ?thesis using r s n built_matrix_zero_diagonal_nonneg [OF s r] by blast
qed

subsection \<open>Rate projector\<close>

text \<open>
  C6. After \<^verbatim>\<open>prepare_run\<close>, for an ensemble whose species are compartments of the run,
  \<^verbatim>\<open>update_transfer_rates\<close> returns and changes \<^verbatim>\<open>transfer_rates1D\<close> only. The row of an
  element that is not in LMM is the matrix row of its specie. The row of an element in
  LMM is the LMM row of the matrix except that the entry toward Particle reversible is
  multiplied by \<^verbatim>\<open>conc3 / 1.e-3\<close> and the entry toward Sediment reversible is zero when the
  element is more than \<^verbatim>\<open>layer_thick\<close> above the sea floor (\<^verbatim>\<open>z - Zmin\<close> with
  \<^verbatim>\<open>Zmin = -1.*sea_floor_depth_below_sea_level\<close>).
\<close>

theorem rate_projector_rows:
  assumes prep: "prepare_run c = (s, None)"
    and valid: "\<forall>sp \<in> set (specie el). sp < nspecies s"
    and lz: "length (z el) = length (specie el)"
    and ld: "length (sea_floor_depth_below_sea_level env) = length (specie el)"
  shows "\<exists>lmm prev srev rows.
      num_lmm s = Some lmm \<and> num_prev s = Some prev \<and> num_srev s = Some srev \<and>
      update_transfer_rates s env el = (el\<lparr>transfer_rates1D := rows\<rparr>, None) \<and>
      length rows = length (specie el) \<and>
      (\<forall>i < length (specie el).
          length (rows ! i) = nspecies s \<and>
          (specie el ! i \<noteq> lmm \<longrightarrow> rows ! i = transfer_rates s ! (specie el ! i)) \<and>
          (specie el ! i = lmm \<longrightarrow> (\<forall>j < nspecies s. rows ! i ! j =
              (if j = prev
               then transfer_rates s ! lmm ! prev * conc3 env ! i / (1 / 10 ^ 3)
               else if j = srev \<and> layer_thick (config s)
                                    < z el ! i - (- 1 * sea_floor_depth_below_sea_level env ! i)
               then 0
               else transfer_rates s ! lmm ! j))))"
proof -
  from prepare_run_indices[OF prep] obtain lmm prev srev where
    nums: "num_lmm s = Some lmm" "num_prev s = Some prev" "num_srev s = Some srev"
    and lt: "lmm < nspecies s" "prev < nspecies s" "srev < nspecies s"
    and ne: "prev \<noteq> srev" by metis
  have sq: "square (nspecies s) (transfer_rates s)" by (rule prepare_run_square[OF prep])
  then have lm: "length (transfer_rates s) = nspecies s"
    and lrow: "\<And>k. k < nspecies s \<Longrightarrow> length (transfer_rates s ! k) = nspecies s"
    by (auto simp: square_def)
  let ?rows = "scale_prev lmm prev (specie el) (conc3 env)
             (zero_srev lmm srev (layer_thick (config s)) (specie el)
                (map (\<lambda>i. z el ! i - map (\<lambda>d. - 1 * d) (sea_floor_depth_below_sea_level env) ! i)
                   [0..<length (z el)])
                (take_rows (transfer_rates s) (specie el)))"
  have res: "update_transfer_rates s env el = (el\<lparr>transfer_rates1D := ?rows\<rparr>, None)"
    by (rule update_transfer_rates_result) (use nums valid lm in simp_all)
  have len: "length ?rows = length (specie el)" by (simp add: scale_prev_def)
  have row: "\<And>i. i < length (specie el) \<Longrightarrow> ?rows ! i =
         (if specie el ! i = lmm
          then let row = (if layer_thick (config s) < z el ! i + sea_floor_depth_below_sea_level env ! i
                          then (transfer_rates s ! lmm)[srev := 0] else transfer_rates s ! lmm)
               in row[prev := row ! prev * conc3 env ! i / (1 / 10 ^ 3)]
          else transfer_rates s ! (specie el ! i))"
    by (rule projected_row) (use lz ld in simp_all)
  have "\<forall>i < length (specie el).
          length (?rows ! i) = nspecies s \<and>
          (specie el ! i \<noteq> lmm \<longrightarrow> ?rows ! i = transfer_rates s ! (specie el ! i)) \<and>
          (specie el ! i = lmm \<longrightarrow> (\<forall>j < nspecies s. ?rows ! i ! j =
              (if j = prev
               then transfer_rates s ! lmm ! prev * conc3 env ! i / (1 / 10 ^ 3)
               else if j = srev \<and> layer_thick (config s)
                                    < z el ! i - (- 1 * sea_floor_depth_below_sea_level env ! i)
               then 0
               else transfer_rates s ! lmm ! j)))"
  proof (intro allI impI)
    fix i assume i: "i < length (specie el)"
    then have v: "specie el ! i < nspecies s" using valid by simp
    show "length (?rows ! i) = nspecies s \<and>
          (specie el ! i \<noteq> lmm \<longrightarrow> ?rows ! i = transfer_rates s ! (specie el ! i)) \<and>
          (specie el ! i = lmm \<longrightarrow> (\<forall>j < nspecies s. ?rows ! i ! j =
              (if j = prev
               then transfer_rates s ! lmm ! prev * conc3 env ! i / (1 / 10 ^ 3)
               else if j = srev \<and> layer_thick (config s)
                                    < z el ! i - (- 1 * sea_floor_depth_below_sea_level env ! i)
               then 0
               else transfer_rates s ! lmm ! j)))"
      unfolding row[OF i] using v lt ne lrow[OF lt(1)] lrow[OF v]
      by (auto simp: Let_def nth_list_update)
  qed
  then show ?thesis using nums res len by blast
qed

theorem rate_projector_rows_witness:
  "\<exists>s. prepare_run dummy_config = (s, None) \<and>
       fst (update_transfer_rates s
              \<lparr>sea_floor_depth_below_sea_level = [100, 100], conc3 = [1 / 500, 1 / 500]\<rparr>
              \<lparr>lon = [4, 4], lat = [60, 60], z = [- 50, - 100], diameter = [0, 0],
               specie = [0, 2], transfer_rates1D = []\<rparr>)
       = \<lparr>lon = [4, 4], lat = [60, 60], z = [- 50, - 100], diameter = [0, 0],
          specie = [0, 2],
          transfer_rates1D = [[0, 2 / 10 ^ 5, 0], [5 / 10 ^ 6, 0, 0]]\<rparr>"
proof -
  let ?env = "\<lparr>sea_floor_depth_below_sea_level = [100, 100], conc3 = [1 / 500, 1 / 500]\<rparr>"
  let ?el = "\<lparr>lon = [4, 4], lat = [60, 60], z = [- 50, - 100], diameter = [0, 0],
               specie = [0, 2], transfer_rates1D = []\<rparr> :: elements"
  obtain s where s: "prepare_run dummy_config = (s, None)" using dummy_prepared by blast
  then have f: "nspecies s = 3" "num_lmm s = Some 0" "num_prev s = Some 1" "num_srev s = Some 2"
    "transfer_rates s = [[0, 1 / 10 ^ 5, 0], [0, 0, 0], [5 / 10 ^ 6, 0, 0]]"
    "layer_thick (config s) = 1"
    by (auto simp: prepare_run_def dummy_config_def default_config_def
        enabled_species_def init_transfer_rates_def dummy_def with_index_def seq_def
        specie_name2num_def Let_def zeros_def set_rate_def fill_diagonal_def)
  have v: "\<forall>sp \<in> set (specie ?el). sp < nspecies s" using f(1) by simp
  from rate_projector_rows [OF s v, of ?env]
  obtain rows where r: "update_transfer_rates s ?env ?el = (?el\<lparr>transfer_rates1D := rows\<rparr>, None)"
    and l: "length rows = 2"
    and rs: "\<forall>i < 2. length (rows ! i) = 3 \<and>
          (specie ?el ! i \<noteq> 0 \<longrightarrow> rows ! i = transfer_rates s ! (specie ?el ! i)) \<and>
          (specie ?el ! i = 0 \<longrightarrow> (\<forall>j < 3. rows ! i ! j =
              (if j = 1
               then transfer_rates s ! 0 ! 1 * conc3 ?env ! i / (1 / 10 ^ 3)
               else if j = 2 \<and> 1 < z ?el ! i - (- 1 * sea_floor_depth_below_sea_level ?env ! i)
               then 0
               else transfer_rates s ! 0 ! j)))"
    using f by auto
  from rs have r1: "rows ! 1 = [5 / 10 ^ 6, 0, 0]" using f(5) by simp
  from rs have "length (rows ! 0) = 3" "\<forall>j < 3. rows ! 0 ! j = (if j = 1 then 2 / 10 ^ 5 else 0)"
    using f(5) by (auto simp: nth_Cons')
  then have r0: "rows ! 0 = [0, 2 / 10 ^ 5, 0]"
    by (intro nth_equalityI) (auto simp: nth_Cons' less_Suc_eq numeral_3_eq_3)
  have "rows = [rows ! 0, rows ! 1]" using l by (intro nth_equalityI) (auto simp: less_Suc_eq numeral_2_eq_2)
  then have "rows = [[0, 2 / 10 ^ 5, 0], [5 / 10 ^ 6, 0, 0]]" using r0 r1 by simp
  then show ?thesis using s r by auto
qed

subsection \<open>Arrays\<close>

lemma length_put_where: "length (put_where ms xs vs) = length xs"
  by (induction ms xs vs rule: put_where.induct) (auto split: list.splits)

lemma put_where_nth:
  "length ms = length xs \<Longrightarrow> length (filter (\<lambda>b. b) ms) \<le> length vs \<Longrightarrow> i < length xs \<Longrightarrow>
   put_where ms xs vs ! i = (if ms ! i then vs ! length (filter (\<lambda>b. b) (take i ms)) else xs ! i)"
proof (induction ms xs vs arbitrary: i rule: put_where.induct)
  case (1 m ms x xs vs)
  show ?case
  proof (cases m)
    case True
    with "1.prems"(2) obtain v vs' where vs: "vs = v # vs'" by (cases vs) auto
    show ?thesis
    proof (cases i)
      case 0
      then show ?thesis using True vs by simp
    next
      case (Suc j)
      then show ?thesis using True vs "1.IH"(1)[OF True vs, of j] "1.prems" by simp
    qed
  next
    case False
    show ?thesis
    proof (cases i)
      case 0
      then show ?thesis using False by simp
    next
      case (Suc j)
      then show ?thesis using False "1.IH"(2)[OF False, of j] "1.prems" by simp
    qed
  qed
qed auto

lemma compress_nth:
  "length ms = length a \<Longrightarrow> i < length a \<Longrightarrow> ms ! i \<Longrightarrow>
   compress ms a ! length (filter (\<lambda>b. b) (take i ms)) = a ! i"
proof (induction ms arbitrary: a i)
  case Nil
  then show ?case by simp
next
  case (Cons m ms)
  then obtain x xs where a: "a = x # xs" by (cases a) auto
  show ?case
  proof (cases i)
    case 0
    then show ?thesis using Cons.prems a by (simp add: compress_def)
  next
    case (Suc j)
    then have "compress ms xs ! length (filter (\<lambda>b. b) (take j ms)) = xs ! j"
      using Cons.IH[of xs j] Cons.prems a by simp
    then show ?thesis using Suc a by (simp add: compress_def)
  qed
qed

lemma rank_less:
  "i < length ms \<Longrightarrow> ms ! i \<Longrightarrow> length (filter (\<lambda>b. b) (take i ms)) < length (filter (\<lambda>b. b) ms)"
proof -
  assume a: "i < length ms" "ms ! i"
  have "ms = take i ms @ ms ! i # drop (Suc i) ms" using a(1) by (simp add: id_take_nth_drop)
  then have "filter (\<lambda>b. b) ms = filter (\<lambda>b. b) (take i ms) @ filter (\<lambda>b. b) (ms ! i # drop (Suc i) ms)"
    by (metis filter_append)
  then show ?thesis using a(2) by simp
qed

lemma seq_specie:
  assumes "specie (fst r) = sp" "\<And>el. specie el = sp \<Longrightarrow> specie (fst (f el)) = sp"
  shows "specie (fst (seq r f)) = sp"
  using assms by (cases r) (auto simp: seq_def split: option.splits)

lemma with_attr_specie:
  assumes "\<And>i. specie (fst (f i)) = specie el"
  shows "specie (fst (with_attr a f el)) = specie el"
  using assms by (simp add: with_attr_def split: option.splits)

lemma specie_set_diameter [simp]: "specie (set_diameter m d el) = specie el"
  by (simp add: set_diameter_def)

lemma specie_set_particle_diameter [simp]:
  "specie (set_particle_diameter m d std noise el) = specie el"
  by (simp add: set_particle_diameter_def Let_def)

lemma specie_update_radionuclide_diameter:
  "specie (fst (update_radionuclide_diameter s g sp_in sp_out el)) = specie el"
  unfolding update_radionuclide_diameter_def Let_def
  by (intro seq_specie with_attr_specie) (simp_all add: with_attr_specie)

lemma specie_sorption_to_sediments:
  "specie (fst (sorption_to_sediments s env sp_in sp_out el)) = specie el"
  unfolding sorption_to_sediments_def Let_def
  by (intro with_attr_specie) simp

lemma specie_desorption_from_sediments:
  "specie (fst (desorption_from_sediments s env g sp_in sp_out el)) = specie el"
  unfolding desorption_from_sediments_def Let_def
  by (intro with_attr_specie) simp

lemma handlers_specie:
  "specie (fst (seq (update_radionuclide_diameter s g a b el1) (\<lambda>el.
                seq (sorption_to_sediments s env a b el)
                    (desorption_from_sediments s env g a b)))) = specie el1"
proof (rule seq_specie[where sp = "specie el1"])
  show "specie (fst (update_radionuclide_diameter s g a b el1)) = specie el1"
    by (rule specie_update_radionuclide_diameter)
next
  fix el :: elements assume e: "specie el = specie el1"
  show "specie (fst (seq (sorption_to_sediments s env a b el)
                    (desorption_from_sediments s env g a b))) = specie el1"
  proof (rule seq_specie[where sp = "specie el1"])
    show "specie (fst (sorption_to_sediments s env a b el)) = specie el1"
      using e by (simp add: specie_sorption_to_sediments)
  next
    fix el' :: elements assume "specie el' = specie el1"
    then show "specie (fst (desorption_from_sediments s env g a b el')) = specie el1"
      by (simp add: specie_desorption_from_sediments)
  qed
qed

lemma prob_nth:
  "i < length rates \<Longrightarrow> prob rates dt ! i = map (\<lambda>r. 1 - exp (- r * real dt)) (rates ! i)"
  by (simp add: prob_def)

lemma update_speciation_specie:
  assumes len: "length (transfer_rates1D el) = length (specie el)" and i: "i < length (specie el)"
  shows "specie (fst (update_speciation s env g dt el)) ! i =
     (if transitions g el dt i
      then out_specie (map (\<lambda>r. 1 - exp (- r * real dt)) (transfer_rates1D el ! i))
             (p_total el dt i) (ran4 g (draw_index g el dt i))
      else specie el ! i)"
proof -
  let ?n = "length (specie el)"
  let ?p = "prob (transfer_rates1D el) dt"
  let ?psum = "map sum_list ?p"
  let ?ms = "phaseshift_mask g ?psum ?n"
  let ?k = "length (filter (\<lambda>b. b) ?ms)"
  let ?ttmp = "map (\<lambda>ii. out_specie (compress ?ms ?p ! ii) (compress ?ms ?psum ! ii) (ran4 g ii)) [0..<?k]"
  have psum_nth: "\<And>j. j < ?n \<Longrightarrow> ?psum ! j = p_total el dt j"
    using len by (simp add: p_total_def prob_def)
  have ms_eq: "?ms = map (transitions g el dt) [0..<?n]"
    unfolding phaseshift_mask_def transitions_def using psum_nth by simp
  have ms_i: "?ms ! i = transitions g el dt i" using i by (simp add: ms_eq)
  have lms: "length ?ms = ?n" by (simp add: phaseshift_mask_def)
  have rank: "length (filter (\<lambda>b. b) (take i ?ms)) = draw_index g el dt i"
    unfolding ms_eq draw_index_def using i by (simp add: take_map filter_map comp_def)
  show ?thesis
  proof (cases "?k = 0")
    case True
    have "\<not> ?ms ! i"
      using rank_less[of i ?ms] True i lms by auto
    moreover have "update_speciation s env g dt el = (el, None)"
      using True by (simp add: update_speciation_def Let_def id_def)
    ultimately show ?thesis using ms_i by simp
  next
    case False
    have "specie (fst (update_speciation s env g dt el)) = put_where ?ms (specie el) ?ttmp"
      using False unfolding update_speciation_def Let_def id_def
      by (simp del: upt_Suc add: handlers_specie)
    moreover have "put_where ?ms (specie el) ?ttmp ! i =
       (if ?ms ! i then ?ttmp ! length (filter (\<lambda>b. b) (take i ?ms)) else specie el ! i)"
      by (rule put_where_nth) (use lms i in simp_all)
    moreover have "?ms ! i \<Longrightarrow> ?ttmp ! length (filter (\<lambda>b. b) (take i ?ms)) =
        out_specie (map (\<lambda>r. 1 - exp (- r * real dt)) (transfer_rates1D el ! i))
             (p_total el dt i) (ran4 g (draw_index g el dt i))"
    proof -
      assume m: "?ms ! i"
      have r: "length (filter (\<lambda>b. b) (take i ?ms)) < ?k" using rank_less[of i ?ms] m i lms by simp
      have c1: "compress ?ms ?p ! length (filter (\<lambda>b. b) (take i ?ms)) = ?p ! i"
        by (rule compress_nth) (use lms i m len in \<open>simp_all add: prob_def\<close>)
      have c2: "compress ?ms ?psum ! length (filter (\<lambda>b. b) (take i ?ms)) = ?psum ! i"
        by (rule compress_nth) (use lms i m len in \<open>simp_all add: prob_def\<close>)
      show ?thesis using r c1 c2 psum_nth[OF i] prob_nth[of i "transfer_rates1D el" dt] i len
        by (simp del: upt_Suc add: rank)
    qed
    ultimately show ?thesis using ms_i by simp
  qed
qed

subsection \<open>Probabilities and selection\<close>

lemma transfer_probability_bounds: "0 \<le> r \<Longrightarrow> 0 \<le> transfer_probability dt r \<and> transfer_probability dt r < 1"
  by (simp add: mult_nonneg_nonneg)

lemma transfer_probability_zero: "transfer_probability dt 0 = 0"
  by simp

lemma transfer_probability_eq_zero_iff: "0 < dt \<Longrightarrow> 0 \<le> r \<Longrightarrow> transfer_probability dt r = 0 \<longleftrightarrow> r = 0"
  by auto

lemma sum_probability_nonneg: "\<forall>r \<in> set row. 0 \<le> r \<Longrightarrow> 0 \<le> sum_list (map (transfer_probability dt) row)"
  by (induction row) (auto simp: mult_nonneg_nonneg intro!: add_nonneg_nonneg)

lemma sum_probability_zero: "\<forall>r \<in> set row. r = 0 \<Longrightarrow> sum_list (map (transfer_probability dt) row) = 0"
  by (induction row) auto

lemma sum_probability_less_one:
  "\<forall>r \<in> set row. 0 \<le> r \<Longrightarrow> length (filter (\<lambda>r. r \<noteq> 0) row) \<le> 1 \<Longrightarrow>
   sum_list (map (transfer_probability dt) row) < 1"
proof (induction row)
  case Nil
  then show ?case by simp
next
  case (Cons r rs)
  show ?case
  proof (cases "r = 0")
    case True
    then show ?thesis using Cons by simp
  next
    case False
    then have "filter (\<lambda>r. r \<noteq> 0) rs = []" using Cons.prems(2) by simp
    then have "\<forall>x \<in> set rs. x = 0" by (simp add: filter_empty_conv)
    then have "sum_list (map (transfer_probability dt) rs) = 0" by (rule sum_probability_zero)
    then show ?thesis using Cons.prems(1) by (simp add: mult_nonneg_nonneg)
  qed
qed

lemma length_cumsum_from: "length (cumsum_from a xs) = length xs"
  by (induction xs arbitrary: a) auto

lemma cumsum_from_nth:
  "i < length xs \<Longrightarrow> cumsum_from a xs ! i = a + sum_list (take (Suc i) xs)"
proof (induction xs arbitrary: a i)
  case Nil
  then show ?case by simp
next
  case (Cons x xs)
  then show ?case by (cases i) (auto simp: add.assoc)
qed

lemma sum_list_divide: "sum_list (map (\<lambda>x. x / c) xs) = sum_list xs / (c::real)"
  by (induction xs) (auto simp: add_divide_distrib)

lemma searchsorted_before: "i < searchsorted a v \<Longrightarrow> a ! i < v"
  unfolding searchsorted_def
  by (metis nth_mem set_takeWhileD takeWhile_nth)

lemma searchsorted_at: "searchsorted a v < length a \<Longrightarrow> v \<le> a ! searchsorted a v"
  unfolding searchsorted_def
  using nth_length_takeWhile[of "\<lambda>x. x < v" a] by auto

lemma out_specie_props:
  fixes row :: "real list" and dt :: nat and v :: real
  defines "p \<equiv> map (transfer_probability dt) row"
  defines "cum \<equiv> cumsum (map (\<lambda>x. x / sum_list p) p)"
  defines "j \<equiv> out_specie p (sum_list p) v"
  assumes nn: "\<forall>r \<in> set row. 0 \<le> r" and ps: "0 < sum_list p" and v: "0 < v" "v < 1"
  shows "j < length row \<and> row ! j \<noteq> 0 \<and> v \<le> cum ! j \<and> (\<forall>i<j. cum ! i < v)"
proof -
  let ?q = "map (\<lambda>x. x / sum_list p) p"
  have jdef: "j = searchsorted cum v" by (simp add: j_def out_specie_def cum_def)
  have lcum: "length cum = length row" by (simp add: cum_def cumsum_def length_cumsum_from p_def)
  have cum_nth: "\<And>i. i < length row \<Longrightarrow> cum ! i = sum_list (take (Suc i) ?q)"
    by (simp add: cum_def cumsum_def cumsum_from_nth p_def)
  have sumq: "sum_list ?q = 1" using ps by (simp add: sum_list_divide)
  have ne: "row \<noteq> []" using ps by (auto simp: p_def)
  have before: "\<forall>i<j. cum ! i < v" using searchsorted_before jdef by simp
  have jlt: "j < length row"
  proof (rule ccontr)
    assume "\<not> j < length row"
    then have "length row - 1 < j" using ne by (cases row) auto
    then have "cum ! (length row - 1) < v" using before by simp
    moreover have "cum ! (length row - 1) = 1"
      using cum_nth[of "length row - 1"] ne sumq by (simp add: p_def)
    ultimately show False using v by simp
  qed
  have at: "v \<le> cum ! j" using searchsorted_at[of cum v] jlt lcum jdef by simp
  have qj: "0 < ?q ! j"
  proof (cases j)
    case 0
    then have "cum ! j = ?q ! j" using cum_nth[OF jlt] jlt by (cases p) (auto simp: p_def)
    then show ?thesis using at v by simp
  next
    case (Suc k)
    have "take (Suc j) ?q = take j ?q @ [?q ! j]" using jlt by (simp add: take_Suc_conv_app_nth p_def)
    then have "cum ! j = cum ! k + ?q ! j" using cum_nth[OF jlt] cum_nth[of k] jlt Suc by simp
    moreover have "cum ! k < v" using before Suc by simp
    ultimately show ?thesis using at by simp
  qed
  have "?q ! j = transfer_probability dt (row ! j) / sum_list p" using jlt by (simp add: p_def)
  with qj ps have "0 < transfer_probability dt (row ! j)" by (simp add: zero_less_divide_iff)
  then have "row ! j \<noteq> 0" by auto
  then show ?thesis using jlt at before by simp
qed

lemma exp_m1_le_half: "exp (- 1 :: real) \<le> 1 / 2"
proof -
  have "1 + 1 \<le> exp (1::real)" by (rule exp_ge_add_one_self)
  then have "inverse (exp (1::real)) \<le> inverse 2" by (intro le_imp_inverse_le) auto
  then show ?thesis by (simp add: exp_minus)
qed

lemma exp_m2_ge_tenth: "1 / 10 \<le> exp (- 2 :: real)"
proof -
  have "exp (2::real) = exp 1 * exp 1" by (simp flip: exp_add)
  also have "\<dots> \<le> 3 * 3" by (intro mult_mono exp_le) auto
  finally have "exp (2::real) \<le> 10" by simp
  then have "inverse 10 \<le> inverse (exp (2::real))" by (intro le_imp_inverse_le) auto
  then show ?thesis by (simp add: exp_minus)
qed

subsection \<open>Bottom deposition\<close>

lemma foldl_update_length: "length (foldl (\<lambda>sp k. sp[f k := v]) sp ks) = length sp"
  by (induction ks arbitrary: sp) auto

lemma foldl_update_nth:
  "i < length sp \<Longrightarrow>
   foldl (\<lambda>sp k. sp[f k := v]) sp ks ! i = (if i \<in> f ` set ks then v else sp ! i)"
proof (induction ks arbitrary: sp)
  case Nil
  then show ?case by simp
next
  case (Cons k ks)
  then show ?case by (auto simp: nth_list_update)
qed

lemma deposit_frame:
  "z (deposit bottom src num el) = z el" "diameter (deposit bottom src num el) = diameter el"
  "lon (deposit bottom src num el) = lon el" "lat (deposit bottom src num el) = lat el"
  "transfer_rates1D (deposit bottom src num el) = transfer_rates1D el"
  "length (specie (deposit bottom src num el)) = length (specie el)"
  by (simp_all add: deposit_def Let_def foldl_update_length)

lemma deposit_nth:
  assumes "i < length (specie el)"
  shows "specie (deposit bottom src num el) ! i =
         (if i \<in> set bottom \<and> specie el ! i = src then num else specie el ! i)"
proof -
  have "i \<in> (\<lambda>k. bottom ! k) ` set (filter (\<lambda>k. specie el ! (bottom ! k) = src) [0..<length bottom])
        \<longleftrightarrow> i \<in> set bottom \<and> specie el ! i = src"
    by (auto simp: in_set_conv_nth)
  then show ?thesis using assms by (simp add: deposit_def Let_def foldl_update_nth)
qed

lemma bottom_interaction_state:
  assumes prev: "num_prev s = Some prev" and srev: "num_srev s = Some srev"
    and slow: "slowly_fraction (config s) \<Longrightarrow> num_psrev s = Some psrev \<and> num_ssrev s = Some ssrev"
    and irr: "num_pirrev s = None"
  shows "fst (bottom_interaction s Zmin el) =
     (let bottom = filter (\<lambda>i. z el ! i \<le> Zmin) [0..<length (z el)];
          el1 = deposit bottom prev srev el
      in if slowly_fraction (config s) then deposit bottom psrev ssrev el1 else el1)"
    and "snd (bottom_interaction s Zmin el) =
     (if irreversible_fraction (config s) then Some AttributeError else None)"
  using assms by (auto simp: bottom_interaction_def seq_def with_attr_def Let_def)

lemma bottom_interaction_raises:
  assumes prep: "prepare_run c = (s, None)"
  shows "snd (bottom_interaction s Zmin el) =
     (if irreversible_fraction (config s) then Some AttributeError else None)"
proof -
  note n = prepare_run_nums[OF prep]
  from prepare_run_indices[OF prep] obtain prev srev where
    nums: "num_prev s = Some prev" "num_srev s = Some srev" by metis
  show ?thesis
  proof (cases "slowly_fraction (config s)")
    case False
    then show ?thesis
      using bottom_interaction_state(2)[of s prev srev undefined undefined Zmin el] nums n by simp
  next
    case True
    with n obtain psrev ssrev where "num_psrev s = Some psrev" "num_ssrev s = Some ssrev"
      by (auto simp: indexed_def)
    then show ?thesis
      using bottom_interaction_state(2)[of s prev srev psrev ssrev Zmin el] nums n by simp
  qed
qed

subsection \<open>Resets after transport\<close>

lemma seq_raises_left: "snd r \<noteq> None \<Longrightarrow> snd (seq r f) \<noteq> None"
  by (cases r) (auto simp: seq_def split: option.splits)

lemma seq_raises_right: "(\<And>el. snd (f el) \<noteq> None) \<Longrightarrow> snd (seq r f) \<noteq> None"
  by (cases r) (auto simp: seq_def split: option.splits)

lemma move_and_reset_raises:
  assumes "num_sirrev s = None" and "irreversible_fraction (config s)"
  shows "snd (move_and_reset s h el) \<noteq> None"
  unfolding move_and_reset_def Let_def
  apply (rule seq_raises_right)
  apply (rule seq_raises_right)
  apply (rule seq_raises_left)
  using assms apply (simp add: with_attr_def)
  done

lemma update_raises_when_irreversible:
  assumes "prepare_run c = (s, None)" and "irreversible_fraction (config s)"
  shows "snd (update s env g deltat h el) \<noteq> None"
proof -
  have n: "num_sirrev s = None" using prepare_run_nums[OF assms(1)] by simp
  show ?thesis
    unfolding update_def
    by (intro seq_raises_right move_and_reset_raises n assms(2))
qed

lemma desorption_z:
  assumes "num_lmm s = Some lmm" and "num_srev s = Some srev"
    and "desorption_depth_uncert (config s) = 0"
    and "length (z el) = length sp_out"
    and "length (sea_floor_depth_below_sea_level env) = length sp_out" and "i < length sp_out"
  shows "z (fst (desorption_from_sediments s env g sp_in sp_out el)) ! i =
     (if sp_out ! i = lmm \<and> sp_in ! i = srev
      then sea_floor_depth_below_sea_level env ! i + desorption_depth (config s)
      else z el ! i)"
  using assms
  by (auto simp: desorption_from_sediments_def with_attr_def assign_where_def Let_def)

lemma assign_where_nth:
  "i < length a \<Longrightarrow> assign_where m a b ! i = (if m ! i then b ! i else a ! i)"
  by (simp add: assign_where_def)

lemma length_assign_where: "length (assign_where m a b) = length a"
  by (simp add: assign_where_def)

lemma reset_lon_lat_props:
  assumes "length (lon el) = length (specie el)" "length (lat el) = length (specie el)"
  shows "specie (reset_lon_lat lon0 lat0 k el) = specie el"
    "z (reset_lon_lat lon0 lat0 k el) = z el"
    "length (lon (reset_lon_lat lon0 lat0 k el)) = length (specie el)"
    "length (lat (reset_lon_lat lon0 lat0 k el)) = length (specie el)"
    "\<And>i. i < length (specie el) \<Longrightarrow> lon (reset_lon_lat lon0 lat0 k el) ! i =
        (if specie el ! i = k then lon0 ! i else lon el ! i)"
    "\<And>i. i < length (specie el) \<Longrightarrow> lat (reset_lon_lat lon0 lat0 k el) ! i =
        (if specie el ! i = k then lat0 ! i else lat el ! i)"
  using assms
  by (simp_all add: reset_lon_lat_def Let_def assign_where_nth length_assign_where is_specie_def)

lemma reset_z_props:
  assumes "length (z el) = length (specie el)"
  shows "specie (reset_z zb k el) = specie el" "lon (reset_z zb k el) = lon el"
    "lat (reset_z zb k el) = lat el"
    "length (z (reset_z zb k el)) = length (specie el)"
    "\<And>i. i < length (specie el) \<Longrightarrow> z (reset_z zb k el) ! i =
        (if specie el ! i = k then zb ! i else z el ! i)"
  using assms
  by (simp_all add: reset_z_def assign_where_nth length_assign_where is_specie_def)

lemma move_and_reset_restores:
  assumes srev: "num_srev s = Some srev"
    and slow: "slowly_fraction (config s) \<Longrightarrow> num_ssrev s = Some ssrev"
    and irr: "\<not> irreversible_fraction (config s)"
    and rebind: "\<not> advects_in_place h"
    and host: "well_behaved s h"
    and len: "length (lon el) = length (specie el)" "length (lat el) = length (specie el)"
      "length (z el) = length (specie el)"
    and i: "i < length (specie el)" and rest: "rests s (specie el ! i)"
  shows "\<exists>el'. move_and_reset s h el = (el', None) \<and>
     lon el' ! i = lon (vertical_mixing h el) ! i \<and>
     lat el' ! i = lat (vertical_mixing h el) ! i \<and>
     z el' ! i = z el ! i \<and> specie el' ! i = specie el ! i"
proof -
  define n where "n = length (specie el)"
  define el1 where "el1 = vertical_mixing h el"
  define el2 where "el2 = advect_ocean_current h el1"
  define el3 where "el3 = reset_lon_lat (lon el1) (lat el1) srev el2"
  define el4 where "el4 = (if slowly_fraction (config s)
                           then reset_lon_lat (lon el1) (lat el1) ssrev el3 else el3)"
  define el5 where "el5 = (if verticaladvection (config s) then vertical_advection h el4 else el4)"
  define el6 where "el6 = reset_z (z el) srev el5"
  define el7 where "el7 = (if slowly_fraction (config s) then reset_z (z el) ssrev el6 else el6)"
  have k: "keeps_ensemble s (vertical_mixing h)" "keeps_ensemble s (advect_ocean_current h)"
    "keeps_ensemble s (vertical_advection h)"
    and va: "\<And>x. lon (vertical_advection h x) = lon x" "\<And>x. lat (vertical_advection h x) = lat x"
    using host by (auto simp: well_behaved_def)
  have res: "move_and_reset s h el = (el7, None)"
    using srev slow irr rebind
    by (simp add: move_and_reset_def seq_def with_attr_def Let_def
        el1_def el2_def el3_def el4_def el5_def el6_def el7_def)
  have rk: "rests s sp \<longleftrightarrow> sp = srev \<or> (slowly_fraction (config s) \<and> sp = ssrev)" for sp
    using srev slow by (auto simp: rests_def)
  have l1: "length (lon el1) = n" "length (lat el1) = n" "length (z el1) = n" "length (specie el1) = n"
    and s1: "specie el1 ! i = specie el ! i"
    using k(1) len i rest unfolding keeps_ensemble_def el1_def n_def by auto
  have l2: "length (lon el2) = n" "length (lat el2) = n" "length (z el2) = n" "length (specie el2) = n"
    and s2: "specie el2 ! i = specie el ! i"
    using k(2) l1 i rest s1 unfolding keeps_ensemble_def el2_def n_def by auto
  have l3: "length (lon el3) = n" "length (lat el3) = n" "length (z el3) = n" "specie el3 = specie el2"
    and p3: "lon el3 ! i = (if specie el ! i = srev then lon el1 ! i else lon el2 ! i)"
            "lat el3 ! i = (if specie el ! i = srev then lat el1 ! i else lat el2 ! i)"
    using reset_lon_lat_props[where el=el2 and ?lon0.0="lon el1" and ?lat0.0="lat el1" and k=srev] l2 i s2
    unfolding el3_def n_def by auto
  have l4: "length (lon el4) = n" "length (lat el4) = n" "length (z el4) = n" "specie el4 = specie el2"
    and p4: "lon el4 ! i = lon el1 ! i" "lat el4 ! i = lat el1 ! i"
    using reset_lon_lat_props[where el=el3 and ?lon0.0="lon el1" and ?lat0.0="lat el1" and k=ssrev] l2 l3 p3 i s2 rest
    unfolding el4_def n_def rk by auto
  have l5: "length (z el5) = n" "length (specie el5) = n"
    and s5: "specie el5 ! i = specie el ! i"
    and p5: "lon el5 ! i = lon el1 ! i" "lat el5 ! i = lat el1 ! i"
    using k(3) va l4 l2 p4 i rest s2 unfolding keeps_ensemble_def el5_def n_def by auto
  have l6: "length (z el6) = n" "specie el6 = specie el5" "lon el6 = lon el5" "lat el6 = lat el5"
    and p6: "z el6 ! i = (if specie el ! i = srev then z el ! i else z el5 ! i)"
    using reset_z_props[where el=el5 and zb="z el" and k=srev] l5 i s5 unfolding el6_def n_def by auto
  have p7: "z el7 ! i = z el ! i" "specie el7 ! i = specie el ! i"
      "lon el7 ! i = lon el1 ! i" "lat el7 ! i = lat el1 ! i"
    using reset_z_props[where el=el6 and zb="z el" and k=ssrev] l6 l5 p6 p5 s5 i rest
    unfolding el7_def n_def rk by auto
  show ?thesis using res p7 unfolding el1_def by simp
qed

subsection \<open>Total transition probability\<close>

text \<open>
  C1, as the specification states it, fails: for a row with the two rates 1 and 1, a step of
  one second and the draw 0.9, \<^verbatim>\<open>update_speciation\<close> marks the element for transformation
  (\<^verbatim>\<open>psum\<close> is \<open>2 (1 - exp (-1))\<close>, above 1), while \<open>1 - exp (-(1 + 1) \<cdot> 1)\<close> is below 0.9.
\<close>

theorem total_probability_counterexample:
  "phaseshift_mask (fixed_draws (9 / 10) 0) (map sum_list (prob [[1, 1]] 1)) 1 = [True] \<and>
   \<not> 9 / 10 < p_total_spec [1, 1] 1"
  using exp_m1_le_half exp_m2_ge_tenth
  by (simp add: phaseshift_mask_def fixed_draws_def prob_def p_total_spec_def)

text \<open>
  C1, amended. \<^verbatim>\<open>update_speciation\<close> compares the draw \<^verbatim>\<open>ran1[i]\<close> with the sum over the row
  of the probabilities \<open>1 - exp (- rate \<cdot> \<Delta>t)\<close>: an element whose draw is not below that sum
  keeps its specie, and an element whose draw is below it receives the out specie that the
  selection computes from its row and its entry of \<^verbatim>\<open>ran4\<close>.
\<close>

theorem speciation_transition_rule:
  assumes "length (transfer_rates1D el) = length (specie el)" and "i < length (specie el)"
  shows "specie (fst (update_speciation s env g deltat el)) ! i =
     (if ran1 g i < (\<Sum>r\<leftarrow>transfer_rates1D el ! i. 1 - exp (- r * real deltat))
      then out_specie (map (transfer_probability deltat) (transfer_rates1D el ! i))
             (\<Sum>r\<leftarrow>transfer_rates1D el ! i. 1 - exp (- r * real deltat))
             (ran4 g (draw_index g el deltat i))
      else specie el ! i)"
  using update_speciation_specie [OF assms, of s env g deltat]
  by (simp add: transitions_def p_total_def)

theorem speciation_transition_rule_witness:
  "length (transfer_rates1D (one_element 0 (- 50) [0, 1, 0]))
     = length (specie (one_element 0 (- 50) [0, 1, 0])) \<and>
   0 < length (specie (one_element 0 (- 50) [0, 1, 0])) \<and>
   specie (fst (update_speciation dummy_sim one_environment (fixed_draws (2 / 5) (1 / 2)) 1
                  (one_element 0 (- 50) [0, 1, 0]))) ! 0 = 1"
proof -
  have e: "exp (- 1 :: real) \<le> 1 / 2" by (rule exp_m1_le_half)
  have ne: "1 - exp (- 1 :: real) \<noteq> 0" using e by simp
  have u: "2 / 5 < 1 - exp (- 1 :: real)" using e by simp
  have "out_specie (map (transfer_probability 1) [0, 1, 0]) (1 - exp (- 1)) (1 / 2) = 1"
    using ne by (simp add: out_specie_def searchsorted_def cumsum_def)
  then show ?thesis
    using speciation_transition_rule [of "one_element 0 (- 50) [0, 1, 0]" 0 dummy_sim
        one_environment "fixed_draws (2 / 5) (1 / 2)" 1] u
    by (simp add: one_element_def fixed_draws_def draw_index_def)
qed

text \<open>
  C2, as the specification states it, fails: for the row with the two rates 1 and 1 and a
  step of one second, \<^verbatim>\<open>psum\<close> is not below 1.
\<close>

theorem total_probability_bound_counterexample: "\<not> sum_list (prob [[1, 1]] 1 ! 0) < 1"
  using exp_m1_le_half by (simp add: prob_def)

text \<open>
  C2, amended. For a row without negative rates and a positive time step, \<^verbatim>\<open>psum[i]\<close> is
  not negative, each probability summed in it lies in \<open>[0, 1)\<close>, and \<^verbatim>\<open>psum[i]\<close> is below 1
  when at most one rate of the row is not zero. When every rate of the row is zero,
  \<^verbatim>\<open>psum[i]\<close> is zero and, for a draw that is not negative, the element is not marked for
  transformation and keeps its specie.
\<close>

theorem total_probability_bounds:
  assumes "length (transfer_rates1D el) = length (specie el)" and "i < length (specie el)"
    and "\<forall>r \<in> set (transfer_rates1D el ! i). 0 \<le> r" and "0 < deltat"
  shows "0 \<le> p_total el deltat i \<and>
     (\<forall>r \<in> set (transfer_rates1D el ! i).
         0 \<le> transfer_probability deltat r \<and> transfer_probability deltat r < 1) \<and>
     (length (filter (\<lambda>r. r \<noteq> 0) (transfer_rates1D el ! i)) \<le> 1 \<longrightarrow> p_total el deltat i < 1) \<and>
     ((\<forall>r \<in> set (transfer_rates1D el ! i). r = 0) \<longrightarrow>
        p_total el deltat i = 0 \<and>
        (0 \<le> ran1 g i \<longrightarrow>
           \<not> transitions g el deltat i \<and>
           specie (fst (update_speciation s env g deltat el)) ! i = specie el ! i))"
proof -
  have a: "0 \<le> p_total el deltat i"
    unfolding p_total_def using assms(3) by (rule sum_probability_nonneg)
  have b: "\<forall>r \<in> set (transfer_rates1D el ! i).
         0 \<le> transfer_probability deltat r \<and> transfer_probability deltat r < 1"
    using assms(3) transfer_probability_bounds by blast
  have c: "length (filter (\<lambda>r. r \<noteq> 0) (transfer_rates1D el ! i)) \<le> 1 \<longrightarrow> p_total el deltat i < 1"
    unfolding p_total_def using assms(3) sum_probability_less_one by blast
  have d: "p_total el deltat i = 0 \<and>
        (0 \<le> ran1 g i \<longrightarrow>
           \<not> transitions g el deltat i \<and>
           specie (fst (update_speciation s env g deltat el)) ! i = specie el ! i)"
    if z: "\<forall>r \<in> set (transfer_rates1D el ! i). r = 0"
  proof -
    have p0: "p_total el deltat i = 0" unfolding p_total_def using z by (rule sum_probability_zero)
    then show ?thesis
      using update_speciation_specie [OF assms(1,2), of s env g deltat]
      by (simp add: transitions_def)
  qed
  show ?thesis using a b c d by blast
qed

theorem total_probability_bounds_witness:
  "length (transfer_rates1D (one_element 1 (- 50) [0, 0, 0]))
     = length (specie (one_element 1 (- 50) [0, 0, 0])) \<and>
   0 < length (specie (one_element 1 (- 50) [0, 0, 0])) \<and>
   transfer_rates1D (one_element 1 (- 50) [0, 0, 0]) ! 0 = [0, 0, 0] \<and> (0::nat) < 3600 \<and>
   p_total (one_element 1 (- 50) [0, 0, 0]) 3600 0 = 0 \<and>
   specie (fst (update_speciation dummy_sim one_environment (fixed_draws (1 / 2) (1 / 2)) 3600
                  (one_element 1 (- 50) [0, 0, 0]))) ! 0 = 1"
  using total_probability_bounds [of "one_element 1 (- 50) [0, 0, 0]" 0 3600
      "fixed_draws (1 / 2) (1 / 2)" dummy_sim one_environment]
  by (simp add: one_element_def fixed_draws_def)

subsection \<open>Destination of a transformation\<close>

lemma arith_aux: "x \<le> 1 / 2 \<Longrightarrow> 0 < y \<Longrightarrow> 3 / 10 * (1 - x + (1 - y)) \<le> 1 - (x::real)"
  by (simp add: algebra_simps add_divide_distrib diff_divide_distrib)

text \<open>
  C3, as the specification states it, fails: for the row with the rates 1 and 3, a step of
  one second and the draw 0.3, the loop of \<^verbatim>\<open>update_speciation\<close> selects index 0, because it
  weights the compartments by their probabilities \<open>1 - exp (- rate \<cdot> \<Delta>t)\<close>; the selection over
  the row itself, with weights 1/4 and 3/4, selects index 1.
\<close>

theorem destination_counterexample:
  "out_specie (prob [[1, 3]] 1 ! 0) (sum_list (prob [[1, 3]] 1 ! 0)) (3 / 10) = 0 \<and>
   select_spec [1, 3] (3 / 10) = 1"
proof -
  have a: "exp (- 1 :: real) \<le> 1 / 2" by (rule exp_m1_le_half)
  have b: "0 < exp (- 3 :: real)" by simp
  have c: "exp (- 3 :: real) \<le> 1" by simp
  have pos: "0 < 1 - exp (- 1 :: real) + (1 - exp (- 3))"
    using a c by linarith
  have "3 / 10 * (1 - exp (- 1 :: real) + (1 - exp (- 3))) \<le> 1 - exp (- 1)"
    using a b by (rule arith_aux)
  then have "3 / 10 \<le> (1 - exp (- 1 :: real)) / (1 - exp (- 1) + (1 - exp (- 3)))"
    using pos by (simp add: pos_le_divide_eq)
  then show ?thesis
    by (simp add: out_specie_def prob_def searchsorted_def cumsum_def select_spec_def)
qed

text \<open>At the draw 0 the search returns index 0 whatever the row: a leading compartment
  with rate zero is selected.\<close>

lemma out_specie_at_zero_draw:
  "out_specie (prob [[0, 1]] 1 ! 0) (sum_list (prob [[0, 1]] 1 ! 0)) 0 = 0"
  by (simp add: out_specie_def prob_def searchsorted_def cumsum_def)

text \<open>
  C3, amended. The loop of \<^verbatim>\<open>update_speciation\<close> weights the compartments by the
  probabilities \<open>1 - exp (- rate \<cdot> \<Delta>t)\<close> of the row divided by their sum \<^verbatim>\<open>psum\<close>, builds the
  cumulative distribution in index order and takes the first index whose cumulative value
  is at least the draw. For a row without negative rates, a sum above zero and a draw
  \<open>v\<close> with \<open>0 < v < 1\<close>, that index is a compartment of the row whose rate is not zero.
\<close>

theorem destination_selection:
  assumes "\<forall>r \<in> set row. 0 \<le> r"
    and "0 < sum_list (map (transfer_probability deltat) row)"
    and "0 < v" and "v < 1"
  shows "let p = map (transfer_probability deltat) row;
             cum = cumsum (map (\<lambda>x. x / sum_list p) p);
             j = out_specie p (sum_list p) v
         in j < length row \<and> row ! j \<noteq> 0 \<and> v \<le> cum ! j \<and> (\<forall>i < j. cum ! i < v)"
  unfolding Let_def using out_specie_props [OF assms] .

theorem destination_selection_witness:
  "0 < sum_list (map (transfer_probability 1) [0, 1, 0]) \<and> (0::real) < 1 / 2 \<and> (1 / 2 :: real) < 1 \<and>
   out_specie (map (transfer_probability 1) [0, 1, 0])
     (sum_list (map (transfer_probability 1) [0, 1, 0])) (1 / 2) < 3 \<and>
   [0, 1, 0 :: real] ! out_specie (map (transfer_probability 1) [0, 1, 0])
     (sum_list (map (transfer_probability 1) [0, 1, 0])) (1 / 2) \<noteq> 0"
proof -
  have e: "exp (- 1 :: real) \<le> 1 / 2" by (rule exp_m1_le_half)
  then have p: "0 < sum_list (map (transfer_probability 1) [0, 1, 0])" by simp
  have n: "\<forall>r \<in> set [0, 1, 0 :: real]. 0 \<le> r" by simp
  have v: "(0::real) < 1 / 2" "(1 / 2 :: real) < 1" by simp_all
  from destination_selection [OF n p v] show ?thesis using n p by (simp add: Let_def)
qed

subsection \<open>Desorption from sediments\<close>

text \<open>
  C7. With the uncertainty at zero, a transformation from Sediment reversible to LMM over a
  sea floor 100 m below the surface and a desorption depth of 10 m leaves the element at
  \<open>z = 110\<close>: \<^verbatim>\<open>desorption_from_sediments\<close> adds the desorption depth to
  \<^verbatim>\<open>sea_floor_depth_below_sea_level\<close>, the depth as a positive number, where
  \<^verbatim>\<open>sorption_to_sediments\<close> and \<^verbatim>\<open>update_transfer_rates\<close> take the sea floor at
  \<^verbatim>\<open>-1.*sea_floor_depth_below_sea_level\<close>. The element ends above the surface, not 10 m
  above the sea floor at \<open>z = -90\<close>.
\<close>

theorem desorption_lifts_above_surface:
  "desorption_from_sediments (dummy_sim\<lparr>config := dummy_config\<lparr>desorption_depth_uncert := 0\<rparr>\<rparr>)
     one_environment (fixed_draws 0 0) [2] [0] (one_element 0 (- 100) [0, 1 / 10 ^ 5, 0])
   = ((one_element 0 (- 100) [0, 1 / 10 ^ 5, 0])\<lparr>z := [110]\<rparr>, None)"
  by (simp add: desorption_from_sediments_def dummy_sim_def dummy_config_def default_config_def
      one_environment_def one_element_def with_attr_def assign_where_def Let_def)

subsection \<open>Bottom deposition\<close>

text \<open>
  C8. After \<^verbatim>\<open>prepare_run\<close>, in the ensemble that \<^verbatim>\<open>bottom_interaction\<close> leaves, every element
  that was Particle reversible with \<^verbatim>\<open>z <= Zmin\<close> is Sediment reversible, every element
  above \<^verbatim>\<open>Zmin\<close> and every element at or below \<^verbatim>\<open>Zmin\<close> that was in no particulate
  compartment has the specie it had, and positions and diameters are those of before.
\<close>

theorem bottom_interaction_deposits:
  assumes prep: "prepare_run c = (s, None)" and len: "length (z el) = length (specie el)"
  shows "\<exists>prev srev. num_prev s = Some prev \<and> num_srev s = Some srev \<and>
    (let el' = fst (bottom_interaction s Zmin el) in
       z el' = z el \<and> diameter el' = diameter el \<and> lon el' = lon el \<and> lat el' = lat el \<and>
       length (specie el') = length (specie el) \<and>
       (\<forall>i < length (specie el).
          (specie el ! i = prev \<and> z el ! i \<le> Zmin \<longrightarrow> specie el' ! i = srev) \<and>
          (Zmin < z el ! i \<longrightarrow> specie el' ! i = specie el ! i) \<and>
          (z el ! i \<le> Zmin \<and> \<not> is_particulate s (specie el ! i)
             \<longrightarrow> specie el' ! i = specie el ! i)))"
proof -
  note n = prepare_run_nums[OF prep]
  from prepare_run_indices[OF prep] obtain prev srev where
    nums: "num_prev s = Some prev" "num_srev s = Some srev"
    and lt: "prev < nspecies s" and nm: "name_species s ! prev = ''Particle reversible''" by metis
  have ns: "nspecies s = length (name_species s)" using n by simp
  let ?bottom = "filter (\<lambda>i. z el ! i \<le> Zmin) [0..<length (z el)]"
  have inb: "\<And>i. i \<in> set ?bottom \<longleftrightarrow> i < length (specie el) \<and> z el ! i \<le> Zmin"
    using len by auto
  have npart: "\<And>sp. \<not> is_particulate s sp \<Longrightarrow> sp \<noteq> prev"
    using lt nm ns by (auto simp: is_particulate_def)
  show ?thesis
  proof (cases "slowly_fraction (config s)")
    case False
    have st: "fst (bottom_interaction s Zmin el) = deposit ?bottom prev srev el"
      using bottom_interaction_state(1)[of s prev srev undefined undefined Zmin el] nums n False
      by (simp add: Let_def)
    show ?thesis
      unfolding Let_def st using nums npart len
      by (auto simp: deposit_frame deposit_nth inb)
  next
    case True
    with n have ip: "indexed s (num_psrev s) ''Particle slowly reversible''"
      and iss: "indexed s (num_ssrev s) ''Sediment slowly reversible''"
      and isr: "indexed s (num_srev s) ''Sediment reversible''" by simp_all
    from indexed_less[OF ip] obtain psrev where p: "num_psrev s = Some psrev"
      "psrev < length (name_species s)" "name_species s ! psrev = ''Particle slowly reversible''" by auto
    from indexed_less[OF iss] obtain ssrev where q: "num_ssrev s = Some ssrev" by auto
    have d: "srev \<noteq> psrev" using indexed_distinct[OF isr ip] nums p by auto
    have npart2: "\<And>sp. \<not> is_particulate s sp \<Longrightarrow> sp \<noteq> psrev"
      using p by (auto simp: is_particulate_def)
    have st: "fst (bottom_interaction s Zmin el) =
        deposit ?bottom psrev ssrev (deposit ?bottom prev srev el)"
      using bottom_interaction_state(1)[of s prev srev psrev ssrev Zmin el] nums n True p q
      by (simp add: Let_def)
    show ?thesis
      unfolding Let_def st using nums npart npart2 d len
      by (auto simp: deposit_frame deposit_nth inb)
  qed
qed

theorem bottom_interaction_deposits_witness:
  "prepare_run dummy_config = (dummy_sim, None) \<and> length (z straddling) = length (specie straddling) \<and>
   specie (fst (bottom_interaction dummy_sim (- 100) straddling)) ! 0 = 2 \<and>
   specie (fst (bottom_interaction dummy_sim (- 100) straddling)) ! 1 = 1 \<and>
   specie (fst (bottom_interaction dummy_sim (- 100) straddling)) ! 2 = 0 \<and>
   z (fst (bottom_interaction dummy_sim (- 100) straddling)) = z straddling"
proof -
  have l: "length (z straddling) = length (specie straddling)" by (simp add: straddling_def)
  have np: "\<not> is_particulate dummy_sim 0" by (simp add: is_particulate_def dummy_sim_def)
  from bottom_interaction_deposits [OF prepare_run_dummy l, of "- 100"]
  obtain prev srev where n: "num_prev dummy_sim = Some prev" "num_srev dummy_sim = Some srev"
    and zz: "z (fst (bottom_interaction dummy_sim (- 100) straddling)) = z straddling"
    and a: "\<forall>i < length (specie straddling).
          (specie straddling ! i = prev \<and> z straddling ! i \<le> - 100 \<longrightarrow>
             specie (fst (bottom_interaction dummy_sim (- 100) straddling)) ! i = srev) \<and>
          (- 100 < z straddling ! i \<longrightarrow>
             specie (fst (bottom_interaction dummy_sim (- 100) straddling)) ! i
               = specie straddling ! i) \<and>
          (z straddling ! i \<le> - 100 \<and> \<not> is_particulate dummy_sim (specie straddling ! i) \<longrightarrow>
             specie (fst (bottom_interaction dummy_sim (- 100) straddling)) ! i
               = specie straddling ! i)"
    by (auto simp: Let_def)
  from n have ps: "prev = 1" "srev = 2" by (simp_all add: dummy_sim_def)
  have "specie (fst (bottom_interaction dummy_sim (- 100) straddling)) ! 0 = 2"
    using a [rule_format, of 0] ps by (simp add: straddling_def)
  moreover have "specie (fst (bottom_interaction dummy_sim (- 100) straddling)) ! 1 = 1"
    using a [rule_format, of 1] ps by (simp add: straddling_def)
  moreover have "specie (fst (bottom_interaction dummy_sim (- 100) straddling)) ! 2 = 0"
    using a [rule_format, of 2] ps np by (simp add: straddling_def)
  ultimately show ?thesis using prepare_run_dummy l zz by simp
qed

subsection \<open>The matrix is not written\<close>

lemma unwritten_on_elements: "unwritten rf h (on_elements f (el, rf, h))"
  by (simp add: unwritten_def on_elements_def split: prod.splits)

lemma unwritten_update_speciation_obj:
  "unwritten rf h (update_speciation_obj s env g deltat (el, rf, h))"
  by (simp add: unwritten_def update_speciation_obj_def split: prod.splits option.splits)

lemma unwritten_update_transfer_rates_obj:
  "transfer_rates_ref rf < allocated h \<Longrightarrow>
   unwritten rf h (update_transfer_rates_obj s env (el, rf, h))"
  by (auto simp: unwritten_def update_transfer_rates_obj_def new_array_def write_array_def
      Let_def split: option.splits)

lemma unwritten_seq:
  assumes "unwritten rf h r"
    and "\<And>el1 rf1 h1. unwritten rf h ((el1, rf1, h1), None) \<Longrightarrow>
           unwritten rf1 h1 (f (el1, rf1, h1))"
  shows "unwritten rf h (seq r f)"
proof (cases r)
  case (Pair st e)
  obtain el1 rf1 h1 where st: "st = (el1, rf1, h1)" by (cases st) auto
  show ?thesis
  proof (cases e)
    case None
    with Pair st assms(1) have u: "unwritten rf h ((el1, rf1, h1), None)" by simp
    from assms(2) [OF u] u show ?thesis
      using Pair st None
      by (auto simp: seq_def unwritten_def split: prod.splits)
  next
    case (Some x)
    then show ?thesis using Pair assms(1) by (simp add: seq_def unwritten_def)
  qed
qed

lemma unwritten_update_obj:
  assumes "transfer_rates_ref rf < allocated h"
  shows "unwritten rf h (update_obj s env g deltat hst (el, rf, h))"
  unfolding update_obj_def
  by (intro unwritten_seq unwritten_update_transfer_rates_obj unwritten_update_speciation_obj
      unwritten_on_elements assms)

text \<open>The step on array objects is the step on values: with the matrix of the object in
  the array that \<^verbatim>\<open>self.transfer_rates\<close> names, both leave the same ensemble and end with
  the same exception, if any.\<close>

lemma update_transfer_rates_obj_agrees:
  assumes "content h (transfer_rates_ref rf) = transfer_rates s"
  shows "case update_transfer_rates_obj s env (el, rf, h) of ((el', rf', h'), e) \<Rightarrow>
           (el', e) = update_transfer_rates s env el \<and>
           (e \<noteq> Some IndexError \<longrightarrow>
              (\<exists>r. transfer_rates1D_ref rf' = Some r \<and> content h' r = transfer_rates1D el'))"
  using assms
  by (auto simp: update_transfer_rates_obj_def update_transfer_rates_def new_array_def
      write_array_def with_attr_def Let_def split: option.splits)

lemma update_obj_agrees:
  assumes "content h (transfer_rates_ref rf) = transfer_rates s"
  shows "case update_obj s env g deltat hst (el, rf, h) of ((el', rf', h'), e) \<Rightarrow>
           (el', e) = update s env g deltat hst el"
proof -
  obtain el1 rf1 h1 e1 where r1: "update_transfer_rates_obj s env (el, rf, h) = ((el1, rf1, h1), e1)"
    by (metis prod.exhaust)
  from update_transfer_rates_obj_agrees [OF assms, of env el] r1
  have v1: "update_transfer_rates s env el = (el1, e1)"
    and ref: "e1 \<noteq> Some IndexError \<Longrightarrow>
                \<exists>r. transfer_rates1D_ref rf1 = Some r \<and> content h1 r = transfer_rates1D el1"
    by auto
  show ?thesis
  proof (cases e1)
    case (Some x)
    then show ?thesis using r1 v1 by (simp add: update_obj_def update_def seq_def)
  next
    case None
    with ref obtain r where r: "transfer_rates1D_ref rf1 = Some r"
      "content h1 r = transfer_rates1D el1" by auto
    obtain el2 e2 where v2: "update_speciation s env g deltat el1 = (el2, e2)"
      by (metis prod.exhaust)
    have o2: "update_speciation_obj s env g deltat (el1, rf1, h1) = ((el2, rf1, h1), e2)"
      using r v2 by (simp add: update_speciation_obj_def)
    show ?thesis
      using r1 v1 None v2 o2
      by (cases e2) (auto simp: update_obj_def update_def seq_def on_elements_def
          split: prod.splits)
  qed
qed

text \<open>
  C9. On array objects, no method of a step writes the matrix: after
  \<^verbatim>\<open>update_transfer_rates\<close>, after \<^verbatim>\<open>update_speciation\<close> with its handlers, after
  \<^verbatim>\<open>bottom_interaction\<close> and after the whole of \<^verbatim>\<open>update\<close>, for every ensemble, environment,
  random draws and host, \<^verbatim>\<open>self.transfer_rates\<close> names the array object it named and that
  object, as every array that existed before the call, holds what it held. The rows that
  \<^verbatim>\<open>update_transfer_rates\<close> gates and scales are those of a new array.
\<close>

theorem transfer_rates_not_written:
  assumes "transfer_rates_ref rf < allocated h"
  shows "unwritten rf h (update_transfer_rates_obj s env (el, rf, h)) \<and>
         unwritten rf h (update_speciation_obj s env g deltat (el, rf, h)) \<and>
         unwritten rf h (bottom_interaction_obj s Zmin (el, rf, h)) \<and>
         unwritten rf h (update_obj s env g deltat hst (el, rf, h)) \<and>
         (case update_obj s env g deltat hst (el, rf, h) of ((el', rf', h'), e) \<Rightarrow>
            content h' (transfer_rates_ref rf') = content h (transfer_rates_ref rf))"
proof -
  have u: "unwritten rf h (update_obj s env g deltat hst (el, rf, h))"
    using assms by (rule unwritten_update_obj)
  then have "case update_obj s env g deltat hst (el, rf, h) of ((el', rf', h'), e) \<Rightarrow>
            content h' (transfer_rates_ref rf') = content h (transfer_rates_ref rf)"
    using assms by (auto simp: unwritten_def split: prod.splits)
  then show ?thesis
    using u assms unwritten_update_transfer_rates_obj unwritten_update_speciation_obj
    by (simp add: bottom_interaction_obj_def unwritten_on_elements)
qed

theorem transfer_rates_not_written_witness:
  "transfer_rates_ref (fst (snd bokna_objects)) < allocated (snd (snd bokna_objects)) \<and>
   transfer_rates1D (fst (fst (update_transfer_rates_obj bokna_sim turbid_environment
                                  bokna_objects)))
     = [[0, 29 / 625000000, 0, 0, 0]] \<and>
   content (snd (snd (fst (update_transfer_rates_obj bokna_sim turbid_environment
                             bokna_objects)))) 1
     = [[0, 29 / 625000000, 0, 0, 0]] \<and>
   content (snd (snd (fst (update_transfer_rates_obj bokna_sim turbid_environment
                             bokna_objects)))) 0
     = transfer_rates bokna_sim \<and>
   content (snd (snd (fst (update_obj bokna_sim turbid_environment
                             (fixed_draws (1 / 2) (1 / 2)) 3600 drifting_host
                             bokna_objects)))) 0
     = transfer_rates bokna_sim \<and>
   transfer_rates bokna_sim ! 0 = [0, 29 / 1250000000, 0, 3393 / 1562500, 0]"
proof -
  let ?rf = "fst (snd bokna_objects)" and ?h = "snd (snd bokna_objects)"
  let ?el = "fst bokna_objects"
  have b: "bokna_objects = (?el, ?rf, ?h)" by simp
  have a: "transfer_rates_ref ?rf < allocated ?h"
    by (simp add: bokna_objects_def)
  have r0: "transfer_rates_ref ?rf = 0" "content ?h 0 = transfer_rates bokna_sim"
    by (simp_all add: bokna_objects_def)
  have ev: "transfer_rates1D (fst (fst (update_transfer_rates_obj bokna_sim turbid_environment
                                  bokna_objects)))
     = [[0, 29 / 625000000, 0, 0, 0]]"
    "content (snd (snd (fst (update_transfer_rates_obj bokna_sim turbid_environment
                             bokna_objects)))) 1
     = [[0, 29 / 625000000, 0, 0, 0]]"
    "content (snd (snd (fst (update_transfer_rates_obj bokna_sim turbid_environment
                             bokna_objects)))) 0
     = transfer_rates bokna_sim"
    by (simp_all add: update_transfer_rates_obj_def bokna_objects_def bokna_sim_def
        bokna_config_def default_config_def turbid_environment_def one_element_def
        new_array_def write_array_def take_rows_def zero_srev_def scale_prev_def Let_def)
  from transfer_rates_not_written [OF a, of bokna_sim turbid_environment ?el
      "fixed_draws (1 / 2) (1 / 2)" 3600 0 drifting_host]
  have "case update_obj bokna_sim turbid_environment (fixed_draws (1 / 2) (1 / 2)) 3600
               drifting_host bokna_objects of ((el', rf', h'), e) \<Rightarrow>
            transfer_rates_ref rf' = 0 \<and> content h' (transfer_rates_ref rf') = transfer_rates bokna_sim"
    using r0 by (auto simp: unwritten_def split: prod.splits)
  then have w: "content (snd (snd (fst (update_obj bokna_sim turbid_environment
                             (fixed_draws (1 / 2) (1 / 2)) 3600 drifting_host
                             bokna_objects)))) 0 = transfer_rates bokna_sim"
    by (auto split: prod.splits)
  show ?thesis using a ev w by (simp add: one_element_def bokna_sim_def)
qed

subsection \<open>Elements at rest\<close>

text \<open>
  C10. With the irreversible fraction on, \<^verbatim>\<open>update\<close> reads \<^verbatim>\<open>self.num_sirrev\<close>, which nothing
  assigns, and raises AttributeError after the horizontal advection and before the
  vertical positions are reset: the step ends with a Sediment irreversible element moved
  by the mixing and by the advection of the host.
\<close>

theorem irreversible_step_raises:
  "update irreversible_sim one_environment (fixed_draws (1 / 2) (1 / 2)) 3600 drifting_host
     (one_element 4 (- 100) [])
   = (\<lparr>lon = [4 + 1 / 100], lat = [60], z = [- 99], diameter = [0], specie = [4],
       transfer_rates1D = [[0, 0, 0, 0, 0]]\<rparr>, Some AttributeError)"
  by (simp add: update_def move_and_reset_def seq_def with_attr_def update_transfer_rates_def update_speciation_def
      irreversible_sim_def irreversible_config_def dummy_config_def default_config_def
      one_environment_def one_element_def drifting_host_def fixed_draws_def
      take_rows_def zero_srev_def scale_prev_def prob_def phaseshift_mask_def
      reset_lon_lat_def is_specie_def assign_where_def Let_def)

text \<open>Every step raises once the irreversible fraction is on.\<close>

lemma update_always_raises_when_irreversible:
  "snd (update irreversible_sim env g deltat h el) \<noteq> None"
proof -
  have "irreversible_fraction (config irreversible_sim)" by (simp add: irreversible_sim_def)
  then show ?thesis using update_raises_when_irreversible [OF prepare_run_irreversible] by blast
qed

lemma seq_assoc: "seq (seq r f) k = seq r (\<lambda>el. seq (f el) k)"
  by (cases r) (auto simp: seq_def split: option.splits)

text \<open>
  With the irreversible fraction off and a host that binds the advected positions to new
  arrays, a step that completes its speciation also completes, and every element that the
  speciation leaves in Sediment reversible (or Sediment slowly reversible, with the slowly
  fraction on) ends with the longitude and latitude it had before the advection and the
  depth it had before the mixing.
\<close>

lemma update_restores_elements_at_rest:
  assumes prep: "prepare_run c = (s, None)" and irr: "\<not> irreversible_fraction (config s)"
    and rebind: "\<not> advects_in_place h" and host: "well_behaved s h"
    and spec: "seq (update_transfer_rates s env el0) (update_speciation s env g deltat) = (el, None)"
    and len: "length (lon el) = length (specie el)" "length (lat el) = length (specie el)"
      "length (z el) = length (specie el)"
    and i: "i < length (specie el)" and rest: "rests s (specie el ! i)"
  shows "\<exists>el'. update s env g deltat h el0 = (el', None) \<and>
     lon el' ! i = lon (vertical_mixing h el) ! i \<and>
     lat el' ! i = lat (vertical_mixing h el) ! i \<and>
     z el' ! i = z el ! i \<and> specie el' ! i = specie el ! i"
proof -
  note n = prepare_run_nums [OF prep]
  from prepare_run_indices [OF prep] obtain srev where srev: "num_srev s = Some srev" by metis
  obtain ssrev where slow: "slowly_fraction (config s) \<Longrightarrow> num_ssrev s = Some ssrev"
    using n by (cases "slowly_fraction (config s)") (auto simp: indexed_def)
  have "update s env g deltat h el0 = move_and_reset s h el"
    unfolding update_def seq_assoc [symmetric] spec by (simp add: seq_def)
  then show ?thesis
    using move_and_reset_restores [OF srev slow irr rebind host len i rest] by simp
qed

text \<open>The resets of longitude and latitude rest on that binding: \<^verbatim>\<open>lon\<close> and \<^verbatim>\<open>lat\<close> are
  not copies, and after an advection that writes into the arrays an element at rest stays
  where the advection took it.\<close>

lemma in_place_advection_defeats_reset:
  "move_and_reset dummy_sim (drifting_host\<lparr>advects_in_place := True\<rparr>)
     (one_element 2 (- 100) [5 / 10 ^ 6, 0, 0])
   = ((one_element 2 (- 100) [5 / 10 ^ 6, 0, 0])\<lparr>lon := [4 + 1 / 100]\<rparr>, None)"
  by (simp add: move_and_reset_def seq_def with_attr_def dummy_sim_def dummy_config_def
      default_config_def one_element_def drifting_host_def reset_lon_lat_def reset_z_def
      is_specie_def assign_where_def Let_def)

lemma rebinding_advection_is_reset:
  "move_and_reset dummy_sim drifting_host (one_element 2 (- 100) [5 / 10 ^ 6, 0, 0])
   = (one_element 2 (- 100) [5 / 10 ^ 6, 0, 0], None)"
  by (simp add: move_and_reset_def seq_def with_attr_def dummy_sim_def dummy_config_def
      default_config_def one_element_def drifting_host_def reset_lon_lat_def reset_z_def
      is_specie_def assign_where_def Let_def)

end
